theory Spec2Isabelle
  imports Main
begin

section \<open>JavaScript values used by the library\<close>

text \<open>
  Numbers that reach the code below (option values, pixel coordinates) are modelled as
  integers; \<open>String_number\<close> is the decimal rendering that a template literal
  \<^verbatim>\<open>`${n}`\<close> produces for an integral number.
\<close>

definition digit_char :: "nat \<Rightarrow> char" where
  "digit_char d = ''0123456789'' ! d"

function String_nat :: "nat \<Rightarrow> string" where
  "String_nat n = (if n < 10 then [digit_char n] else String_nat (n div 10) @ [digit_char (n mod 10)])"
  by pat_completeness auto
termination
  by (relation "measure id") auto

declare String_nat.simps [simp del]

definition String_number :: "int \<Rightarrow> string" where
  "String_number i = (if i < 0 then ''-'' @ String_nat (nat (- i)) else String_nat (nat i))"

text \<open>A template interpolation of a possibly missing number: \<^verbatim>\<open>`${undefined}`\<close> is the text undefined.\<close>

definition interpolate :: "int option \<Rightarrow> string" where
  "interpolate v = (case v of None \<Rightarrow> ''undefined'' | Some n \<Rightarrow> String_number n)"

text \<open>\<open>String.prototype.toUpperCase\<close> on ASCII text.\<close>

definition upper_char :: "char \<Rightarrow> char" where
  "upper_char c =
     (case map_of (zip ''abcdefghijklmnopqrstuvwxyz'' ''ABCDEFGHIJKLMNOPQRSTUVWXYZ'') c of
        None \<Rightarrow> c
      | Some u \<Rightarrow> u)"

definition toUpperCase :: "string \<Rightarrow> string" where
  "toUpperCase t = map upper_char t"

section \<open>Global options: types.ts and tokens.ts\<close>

text \<open>
  An options object is a JavaScript object: a finite map from property names to numbers.
  The spread \<^verbatim>\<open>{...a, ...b}\<close> copies the own properties of \<open>a\<close>, then those of \<open>b\<close>.
\<close>

type_synonym GlobalOptions = "string \<rightharpoonup> int"

definition spread :: "GlobalOptions \<Rightarrow> GlobalOptions \<Rightarrow> GlobalOptions" where
  "spread a b = a ++ b"

definition DEFAULT_OPTIONS :: GlobalOptions where
  "DEFAULT_OPTIONS = [''arrowHeight'' \<mapsto> 4, ''arrowPadding'' \<mapsto> 5, ''longPressDelay'' \<mapsto> 500]"

datatype InjectionToken = FLOATING_UI_OPTIONS

record Provider =
  provide :: InjectionToken
  useValue :: GlobalOptions

definition provideFloatingUiOptions :: "GlobalOptions \<Rightarrow> Provider list" where
  "provideFloatingUiOptions opts =
     [\<lparr> provide = FLOATING_UI_OPTIONS, useValue = spread DEFAULT_OPTIONS opts \<rparr>]"

text \<open>
  The token's own factory, used by the injector when no provider is registered for it.
\<close>

definition FLOATING_UI_OPTIONS_factory :: GlobalOptions where
  "FLOATING_UI_OPTIONS_factory = DEFAULT_OPTIONS"

text \<open>
  \<^verbatim>\<open>inject(FLOATING_UI_OPTIONS)\<close> against the providers registered at the composition root:
  the last provider of the token wins; with none the factory runs.
\<close>

definition inject_options :: "Provider list \<Rightarrow> GlobalOptions" where
  "inject_options ps =
     (case filter (\<lambda>p. provide p = FLOATING_UI_OPTIONS) ps of
        [] \<Rightarrow> FLOATING_UI_OPTIONS_factory
      | q # qs \<Rightarrow> useValue (last (q # qs)))"

section \<open>DOM elements\<close>

text \<open>
  An element carries what the directive reads or writes. Elements are objects, so the
  directive's state keeps them in a store indexed by reference. A style declaration reads
  as the empty string where nothing was assigned.
\<close>

record element =
  nodeName :: string
  draggable :: bool
  classList :: "string list"
  attributes :: "(string \<times> string) list"
  textContent :: string
  childNodes :: "nat list"
  style :: "string \<Rightarrow> string"

definition blank_style :: "string \<Rightarrow> string" where
  "blank_style = (\<lambda>_. [])"

definition new_element :: "string \<Rightarrow> element" where
  "new_element tag = \<lparr> nodeName = tag, draggable = False, classList = [], attributes = [],
     textContent = [], childNodes = [], style = blank_style \<rparr>"

text \<open>The elements created so far, by reference, and the next unused reference.\<close>

record dom_store =
  elems :: "nat \<Rightarrow> element"
  next_node :: nat

definition empty_dom :: dom_store where
  "empty_dom = \<lparr> elems = (\<lambda>_. new_element ''DIV''), next_node = 0 \<rparr>"

section \<open>Arrow placement: setArrowPosition\<close>

text \<open>The twelve placements of the positioning engine, as the demo application lists them.\<close>

definition placements :: "string list" where
  "placements = [''top'', ''right'', ''bottom'', ''left'', ''top-end'', ''top-start'',
     ''right-end'', ''right-start'', ''bottom-end'', ''bottom-start'', ''left-end'', ''left-start'']"

text \<open>\<^verbatim>\<open>placement.split('-')[0]\<close>\<close>

definition split_first :: "string \<Rightarrow> string" where
  "split_first p = takeWhile (\<lambda>c. c \<noteq> CHR ''-'') p"

text \<open>The object literal indexed by the tooltip side; a missing key reads as undefined.\<close>

definition arrowSide_of :: "string \<Rightarrow> string option" where
  "arrowSide_of tooltipSide =
     map_of [(''top'', ''bottom''), (''right'', ''left''), (''bottom'', ''top''), (''left'', ''right'')] tooltipSide"

definition px :: "int \<Rightarrow> string" where
  "px n = String_number n @ ''px''"

text \<open>
  \<open>Object.assign\<close> writes the literal's properties in order: left, top, right, bottom, and
  the computed key last, so the computed key overrides an earlier one of the same name.
\<close>

definition setArrowPosition ::
  "GlobalOptions \<Rightarrow> element \<Rightarrow> string \<Rightarrow> int option \<times> int option \<Rightarrow> element" where
  "setArrowPosition opts arrowEl tooltipSide arrowMiddleware =
     (let arrowX = fst arrowMiddleware;
          arrowY = snd arrowMiddleware;
          arrowSide = (case arrowSide_of tooltipSide of None \<Rightarrow> ''undefined'' | Some a \<Rightarrow> a)
      in arrowEl\<lparr> style := (style arrowEl)
            (''left'' := (case arrowX of Some x \<Rightarrow> px x | None \<Rightarrow> ''''),
             ''top'' := (case arrowY of Some y \<Rightarrow> px y | None \<Rightarrow> ''''),
             ''right'' := '''',
             ''bottom'' := '''',
             arrowSide := ''-'' @ interpolate (opts ''arrowHeight'') @ ''px'') \<rparr>)"

section \<open>Touch gesture suppression: disableNativeGestures\<close>

definition disableNativeGestures :: "element \<Rightarrow> element" where
  "disableNativeGestures nativeElement =
     (let el1 = (if nodeName nativeElement \<noteq> ''INPUT'' \<and> nodeName nativeElement \<noteq> ''TEXTAREA''
                 then nativeElement\<lparr> style := (style nativeElement)
                        (''MozUserSelect'' := ''none'', ''webkitUserSelect'' := ''none'',
                         ''msUserSelect'' := ''none'', ''userSelect'' := ''none'') \<rparr>
                 else nativeElement);
          el2 = (if \<not> draggable el1
                 then el1\<lparr> style := (style el1)(''webkitUserDrag'' := ''none'') \<rparr>
                 else el1)
      in el2\<lparr> style := (style el2)
            (''touchAction'' := ''none'', ''webkitTapHighlightColor'' := ''transparent'') \<rparr>)"

section \<open>The floating directive and the runtime around it\<close>

datatype TooltipTrigger = Click | Hover

text \<open>
  The content input. A template carries the node names of the root nodes its embedded
  views produce. Types are erased at run time, so a value outside the declared union can
  be bound as well: a component class is given by its selector and by the source text that
  \<open>String\<close> returns for it.
\<close>

datatype TooltipContent =
    TemplateRef "string list"
  | StringContent string
  | NumberContent int
  | ComponentType string string

definition String_content :: "TooltipContent \<Rightarrow> string" where
  "String_content c =
     (case c of
        StringContent t \<Rightarrow> t
      | NumberContent n \<Rightarrow> String_number n
      | ComponentType selector source \<Rightarrow> source
      | TemplateRef roots \<Rightarrow> ''[object Object]'')"

text \<open>
  An event handler is a closure: its identity (closures created by separate evaluations
  are different objects) and what its body does.
\<close>

datatype handler_body =
    CallShow | CallHide | CallToggle | WheelHandler | TouchstartHandler | TouchendHandler

datatype callback = Callback nat handler_body

text \<open>The arguments of \<open>addEventListener\<close>: event name, handler, and the passive flag of the options.\<close>

type_synonym listener = "string \<times> callback \<times> bool"

text \<open>
  The browser identifies a registration by event name, handler and capture flag; the
  options built by the directive never set capture.
\<close>

definition same_registration :: "listener \<Rightarrow> listener \<Rightarrow> bool" where
  "same_registration a b = (fst a = fst b \<and> fst (snd a) = fst (snd b))"

definition addEventListener :: "listener list \<Rightarrow> listener \<Rightarrow> listener list" where
  "addEventListener ls l = (if list_ex (same_registration l) ls then ls else ls @ [l])"

definition removeEventListener :: "listener list \<Rightarrow> listener \<Rightarrow> listener list" where
  "removeEventListener ls l = filter (\<lambda>k. \<not> same_registration l k) ls"

datatype middleware = Offset int | Flip | Shift | Arrow nat "int option"

text \<open>What the context of an embedded view exposes as \<open>$implicit\<close>.\<close>

datatype implicit_context = ImplicitClose | ImplicitNumber int

text \<open>One \<open>autoUpdate\<close> subscription with what its callback captured.\<close>

record tracker =
  tracker_id :: nat
  tracked_tooltip :: nat
  tracked_arrow :: "nat option"
  tracked_placement :: "string option"
  tracked_middleware :: "middleware list"

text \<open>The result of \<open>computePosition\<close>, supplied by the positioning engine.\<close>

record ComputePositionReturn =
  pos_x :: int
  pos_y :: int
  pos_placement :: string
  arrow_data :: "(int option \<times> int option) option"

text \<open>
  The directive instance (injected values, inputs, private fields) together with the part
  of the browser and framework state its methods act on: the listeners registered on the
  trigger element, the store of created elements, the panel nodes under the document body,
  the live embedded views and component views, the active position subscriptions, and the
  pending timeouts with the clock. \<open>fresh\<close> numbers the closures, views, subscriptions
  and timeouts as they are created. \<open>supportsMouseEvents\<close> holds what the helper of that
  name answers for the browser's user agent, and \<open>isServer\<close> what \<open>isPlatformServer\<close>
  answers for the injected platform.
\<close>

record directive =
  options :: GlobalOptions
  isServer :: bool
  supportsMouseEvents :: bool
  nativeElement :: element
  content :: TooltipContent
  trigger :: TooltipTrigger
  showDelay :: "int option"
  hideDelay :: "int option"
  interactive :: "int option"
  placement :: "string option"
  showArrow :: bool
  offset :: "int option"
  cssModifier :: "string option"
  disabled :: bool
  manual :: bool
  p_isVisible :: bool
  tooltipElRef :: "nat option"
  embdedViewRef :: "nat option"
  componentRef :: "nat option"
  cleanupFn :: "nat option"
  eventListeners :: "listener list"
  touchstartTimeout :: "nat option"
  attached :: "listener list"
  nodes :: dom_store
  body :: "nat list"
  views :: "(nat \<times> implicit_context) list"
  appViews :: "nat list"
  tracking :: "tracker list"
  timers :: "(nat \<times> nat) list"
  clock :: nat
  fresh :: nat

text \<open>The public, read-only signal.\<close>

definition isVisible :: "directive \<Rightarrow> bool" where
  "isVisible s = p_isVisible s"

text \<open>A freshly constructed instance: the field initialisers of the class.\<close>

definition new_directive ::
  "GlobalOptions \<Rightarrow> bool \<Rightarrow> bool \<Rightarrow> element \<Rightarrow> TooltipContent \<Rightarrow> directive" where
  "new_directive opts server mouse el c =
     \<lparr> options = opts, isServer = server, supportsMouseEvents = mouse, nativeElement = el,
       content = c, trigger = Hover, showDelay = None, hideDelay = None, interactive = None,
       placement = None, showArrow = True, offset = Some 6, cssModifier = None,
       disabled = False, manual = False, p_isVisible = False, tooltipElRef = None,
       embdedViewRef = None, componentRef = None, cleanupFn = None, eventListeners = [],
       touchstartTimeout = None, attached = [], nodes = empty_dom,
       body = [], views = [], appViews = [], tracking = [], timers = [], clock = 0, fresh = 0 \<rparr>"

subsection \<open>Guarded calls on stored references\<close>

text \<open>
  A guarded call \<^verbatim>\<open>ref && ref.destroy()\<close> (or \<open>remove\<close>, \<open>clearTimeout\<close>): with no
  reference nothing happens; otherwise the referenced object leaves the list of live
  objects, and a second call on the same reference finds nothing to remove.
\<close>

definition without :: "nat option \<Rightarrow> ('a \<Rightarrow> nat) \<Rightarrow> 'a list \<Rightarrow> 'a list" where
  "without r key xs = (case r of None \<Rightarrow> xs | Some i \<Rightarrow> filter (\<lambda>x. key x \<noteq> i) xs)"

subsection \<open>Timers\<close>

definition clearTimeout :: "nat option \<Rightarrow> directive \<Rightarrow> directive" where
  "clearTimeout h s = s\<lparr> timers := without h fst (timers s) \<rparr>"

text \<open>A missing or negative delay counts as zero. The callback is always \<open>() => this.show()\<close>.\<close>

definition setTimeout :: "int option \<Rightarrow> directive \<Rightarrow> nat \<times> directive" where
  "setTimeout delay s =
     (let i = fresh s;
          d = (case delay of None \<Rightarrow> 0 | Some n \<Rightarrow> nat n)
      in (i, s\<lparr> timers := timers s @ [(i, clock s + d)], fresh := Suc i \<rparr>))"

subsection \<open>Teardown\<close>

definition destroy :: "directive \<Rightarrow> directive" where
  "destroy s =
     (let s1 = s\<lparr> views := without (embdedViewRef s) fst (views s) \<rparr>;
          s2 = s1\<lparr> appViews := without (componentRef s1) id (appViews s1) \<rparr>;
          s3 = s2\<lparr> body := without (tooltipElRef s2) id (body s2) \<rparr>;
          s4 = s3\<lparr> tracking := without (cleanupFn s3) tracker_id (tracking s3) \<rparr>
      in clearTimeout (touchstartTimeout s4) s4)"

subsection \<open>Building the panel\<close>

definition addClass :: "string \<Rightarrow> element \<Rightarrow> element" where
  "addClass c e = (if c \<in> set (classList e) then e else e\<lparr> classList := classList e @ [c] \<rparr>)"

definition createEl :: "string list \<Rightarrow> dom_store \<Rightarrow> nat \<times> dom_store" where
  "createEl classNames d =
     (let el = next_node d
      in (el, d\<lparr> elems := (elems d)(el := fold addClass classNames (new_element ''DIV'')),
                next_node := Suc el \<rparr>))"

definition setAttribute :: "nat \<Rightarrow> string \<Rightarrow> string \<Rightarrow> dom_store \<Rightarrow> dom_store" where
  "setAttribute el k v d =
     d\<lparr> elems := (elems d)(el := (elems d el)
          \<lparr> attributes := filter (\<lambda>a. fst a \<noteq> k) (attributes (elems d el)) @ [(k, v)] \<rparr>) \<rparr>"

definition appendChild :: "nat \<Rightarrow> nat \<Rightarrow> dom_store \<Rightarrow> dom_store" where
  "appendChild parent child d =
     d\<lparr> elems := (elems d)(parent := (elems d parent)
          \<lparr> childNodes := childNodes (elems d parent) @ [child] \<rparr>) \<rparr>"

definition setTextContent :: "nat \<Rightarrow> string \<Rightarrow> dom_store \<Rightarrow> dom_store" where
  "setTextContent el t d =
     d\<lparr> elems := (elems d)(el := (elems d el)\<lparr> textContent := t, childNodes := [] \<rparr>) \<rparr>"

text \<open>The root nodes of a new embedded view, one per node name of the template.\<close>

fun createRootNodes :: "string list \<Rightarrow> dom_store \<Rightarrow> nat list \<times> dom_store" where
  "createRootNodes [] d = ([], d)"
| "createRootNodes (tag # tags) d =
     (let n = next_node d;
          d1 = d\<lparr> elems := (elems d)(n := new_element tag), next_node := Suc n \<rparr>;
          (ns, d2) = createRootNodes tags d1
      in (n # ns, d2))"

text \<open>
  \<open>vcr.createEmbeddedView(template, context)\<close>: a new live view with its root nodes.
\<close>

definition createEmbeddedView ::
  "string list \<Rightarrow> implicit_context \<Rightarrow> directive \<Rightarrow> (nat \<times> nat list) \<times> directive" where
  "createEmbeddedView roots ctx s =
     (let v = fresh s;
          (rootNodes, d) = createRootNodes roots (nodes s)
      in ((v, rootNodes), s\<lparr> views := views s @ [(v, ctx)], fresh := Suc v, nodes := d \<rparr>))"

definition createElement :: "bool \<Rightarrow> directive \<Rightarrow> (nat \<times> nat option) \<times> directive" where
  "createElement createArrow s =
     (let tooltipClassNames = [''floating-tooltip''] @
            (case cssModifier s of
               None \<Rightarrow> []
             | Some m \<Rightarrow> if m \<noteq> [] then [''floating-tooltip_'' @ m] else []);
          (tooltipEl, d1) = createEl tooltipClassNames (nodes s);
          (tooltipContent, d2) = createEl [''floating-tooltip__content''] d1;
          s3 = s\<lparr> nodes := setAttribute tooltipEl ''tabindex'' ''-1'' d2 \<rparr>;
          s4 = (case content s3 of
                  TemplateRef roots \<Rightarrow>
                    (let ((v, rootNodes), t1) = createEmbeddedView roots ImplicitClose s3
                     in t1\<lparr> embdedViewRef := Some v,
                            nodes := fold (appendChild tooltipContent) rootNodes (nodes t1) \<rparr>)
                | _ \<Rightarrow> s3\<lparr> nodes := setTextContent tooltipContent (String_content (content s3)) (nodes s3) \<rparr>);
          (arrowEl, d5) = (if createArrow
                           then (let (a, d) = createEl [''floating-tooltip__arrow''] (nodes s4)
                                 in (Some a, appendChild tooltipEl a d))
                           else (None, nodes s4));
          d6 = appendChild tooltipEl tooltipContent d5
      in ((tooltipEl, arrowEl), s4\<lparr> nodes := d6, body := body s4 @ [tooltipEl] \<rparr>))"

definition render :: "directive \<Rightarrow> directive" where
  "render s =
     (let ((tooltipEl, arrowEl), s1) = createElement (showArrow s) s;
          middleware0 = [Flip, Shift];
          middleware1 = (case offset s1 of
                           None \<Rightarrow> middleware0
                         | Some n \<Rightarrow> if n \<noteq> 0 then Offset n # middleware0 else middleware0);
          middleware2 = (if showArrow s1
                         then (case arrowEl of
                                 None \<Rightarrow> middleware1
                               | Some a \<Rightarrow> middleware1 @ [Arrow a (options s1 ''arrowPadding'')])
                         else middleware1);
          u = fresh s1
      in s1\<lparr> tracking := tracking s1 @
                  [\<lparr> tracker_id = u, tracked_tooltip = tooltipEl, tracked_arrow = arrowEl,
                     tracked_placement = placement s1, tracked_middleware = middleware2 \<rparr>],
              fresh := Suc u, cleanupFn := Some u, tooltipElRef := Some tooltipEl \<rparr>)"

subsection \<open>Applying a computed position\<close>

datatype js_error = TypeError

text \<open>
  The asynchronous \<open>setTooltipPosition\<close>, from the point where the engine's result is
  available. The panel's coordinates are written before the arrow data is read, so a
  missing arrow entry rejects the promise after that write.
\<close>

definition setStyle :: "nat \<Rightarrow> string \<Rightarrow> string \<Rightarrow> dom_store \<Rightarrow> dom_store" where
  "setStyle el k v d =
     d\<lparr> elems := (elems d)(el := (elems d el)\<lparr> style := (style (elems d el))(k := v) \<rparr>) \<rparr>"

definition setTooltipPosition ::
  "nat \<Rightarrow> nat option \<Rightarrow> ComputePositionReturn \<Rightarrow> GlobalOptions \<Rightarrow> dom_store \<Rightarrow> js_error option \<times> dom_store" where
  "setTooltipPosition tooltipEl arrowEl r opts d =
     (let d1 = setStyle tooltipEl ''left'' (px (pos_x r)) d;
          d2 = setStyle tooltipEl ''top'' (px (pos_y r)) d1
      in case arrowEl of
           None \<Rightarrow> (None, d2)
         | Some a \<Rightarrow>
             (case arrow_data r of
                None \<Rightarrow> (Some TypeError, d2)
              | Some m \<Rightarrow>
                  (None, d2\<lparr> elems := (elems d2)(a :=
                     setArrowPosition opts (elems d2 a) (split_first (pos_placement r)) m) \<rparr>)))"

subsection \<open>Public API\<close>

definition "show" :: "directive \<Rightarrow> directive" where
  "show s = (if p_isVisible s then s else render (destroy (s\<lparr> p_isVisible := True \<rparr>)))"

definition hide :: "directive \<Rightarrow> directive" where
  "hide s = (if \<not> p_isVisible s then s else destroy (s\<lparr> p_isVisible := False \<rparr>))"

definition toggle :: "directive \<Rightarrow> directive" where
  "toggle s = (if p_isVisible s then hide s else show s)"

subsection \<open>Listener registration\<close>

text \<open>Evaluating an arrow function expression creates a new closure object.\<close>

definition new_callback :: "handler_body \<Rightarrow> directive \<Rightarrow> callback \<times> directive" where
  "new_callback b s = (Callback (fresh s) b, s\<lparr> fresh := Suc (fresh s) \<rparr>)"

definition addListener :: "string \<Rightarrow> callback \<Rightarrow> directive \<Rightarrow> directive" where
  "addListener ev cb s = s\<lparr> eventListeners := eventListeners s @ [(ev, cb, True)] \<rparr>"

definition setupFocusAndBlurEvents :: "directive \<Rightarrow> directive" where
  "setupFocusAndBlurEvents s =
     (let (f, s1) = new_callback CallShow s;
          s2 = addListener ''focus'' f s1;
          (b, s3) = new_callback CallHide s2
      in addListener ''blur'' b s3)"

definition setupClickEvents :: "directive \<Rightarrow> directive" where
  "setupClickEvents s =
     (let (c, s1) = new_callback CallToggle s in addListener ''click'' c s1)"

definition setupMouseEvents :: "directive \<Rightarrow> directive" where
  "setupMouseEvents s =
     (let (e, s1) = new_callback CallShow s;
          s2 = addListener ''mouseenter'' e s1;
          (l, s3) = new_callback CallHide s2;
          s4 = addListener ''mouseleave'' l s3;
          (w, s5) = new_callback WheelHandler s4
      in addListener ''wheel'' w s5)"

definition setupTouchEvents :: "directive \<Rightarrow> directive" where
  "setupTouchEvents s =
     (let s1 = s\<lparr> nativeElement := disableNativeGestures (nativeElement s) \<rparr>;
          (t, s2) = new_callback TouchstartHandler s1;
          s3 = addListener ''touchstart'' t s2;
          (touchendListener, s4) = new_callback TouchendHandler s3;
          s5 = addListener ''touchend'' touchendListener s4
      in addListener ''touchcancel'' touchendListener s5)"

definition setupListeners :: "directive \<Rightarrow> directive" where
  "setupListeners s =
     (let s1 = (if trigger s = Click then setupClickEvents s
                else (let s0 = setupFocusAndBlurEvents s
                      in if supportsMouseEvents s0 then setupMouseEvents s0
                         else setupTouchEvents s0))
      in s1\<lparr> attached := fold (\<lambda>l ls. addEventListener ls l) (eventListeners s1) (attached s1) \<rparr>)"

definition removeListeners :: "directive \<Rightarrow> directive" where
  "removeListeners s =
     s\<lparr> attached := fold (\<lambda>l ls. removeEventListener ls l) (eventListeners s) (attached s) \<rparr>"

subsection \<open>Lifecycle hooks\<close>

definition ngAfterViewInit :: "directive \<Rightarrow> directive" where
  "ngAfterViewInit s = (if manual s \<or> isServer s \<or> disabled s then s else setupListeners s)"

text \<open>
  \<open>changes\<close> maps the name of each changed input to the \<open>firstChange\<close> flag of its
  \<open>SimpleChange\<close>; the new values are already stored in the instance.
\<close>

definition ngOnChanges :: "(string \<rightharpoonup> bool) \<Rightarrow> directive \<Rightarrow> directive" where
  "ngOnChanges changes s =
     (case changes ''disabled'' of
        None \<Rightarrow> s
      | Some firstChange \<Rightarrow>
          if \<not> firstChange then
            (if manual s \<or> isServer s then s
             else if disabled s then removeListeners (if p_isVisible s then destroy s else s)
             else setupListeners s)
          else s)"

definition ngOnDestroy :: "directive \<Rightarrow> directive" where
  "ngOnDestroy s = removeListeners (destroy s)"

subsection \<open>Event handlers and the event loop\<close>

text \<open>
  A dispatched DOM event: its name and, for a wheel event, whether the element under the
  pointer is neither the trigger nor one of its descendants.
\<close>

record dom_event =
  event_type :: string
  pointer_off_trigger :: bool

definition run_handler :: "handler_body \<Rightarrow> dom_event \<Rightarrow> directive \<Rightarrow> directive" where
  "run_handler b ev s =
     (case b of
        CallShow \<Rightarrow> show s
      | CallHide \<Rightarrow> hide s
      | CallToggle \<Rightarrow> toggle s
      | WheelHandler \<Rightarrow>
          (if p_isVisible s then (if pointer_off_trigger ev then hide s else s) else s)
      | TouchstartHandler \<Rightarrow>
          (let s1 = clearTimeout (touchstartTimeout s) s;
               (i, s2) = setTimeout (options s1 ''longPressDelay'') s1
           in s2\<lparr> touchstartTimeout := Some i \<rparr>)
      | TouchendHandler \<Rightarrow> hide (clearTimeout (touchstartTimeout s) s))"

text \<open>The browser calls the handlers registered for the event's name, in registration order.\<close>

definition call_listener :: "dom_event \<Rightarrow> listener \<Rightarrow> directive \<Rightarrow> directive" where
  "call_listener ev l s =
     (if fst l = event_type ev
      then (case fst (snd l) of Callback i b \<Rightarrow> run_handler b ev s)
      else s)"

definition dispatchEvent :: "dom_event \<Rightarrow> directive \<Rightarrow> directive" where
  "dispatchEvent ev s = fold (call_listener ev) (attached s) s"

text \<open>A pending timeout fires once: it leaves the pending list and its callback runs.\<close>

definition fire :: "nat \<Rightarrow> directive \<Rightarrow> directive" where
  "fire i s =
     (if i \<in> set (map fst (timers s))
      then show (s\<lparr> timers := without (Some i) fst (timers s) \<rparr>)
      else s)"

definition advance :: "nat \<Rightarrow> directive \<Rightarrow> directive" where
  "advance d s =
     (let s1 = s\<lparr> clock := clock s + d \<rparr>;
          due = map fst (filter (\<lambda>t. snd t \<le> clock s1) (timers s1))
      in fold fire due s1)"

text \<open>
  A position update: every active subscription applies the engine's result to its panel.
  A rejected update leaves what it had written.
\<close>

definition reposition :: "ComputePositionReturn \<Rightarrow> directive \<Rightarrow> directive" where
  "reposition r s =
     s\<lparr> nodes := fold (\<lambda>t d. snd (setTooltipPosition (tracked_tooltip t) (tracked_arrow t) r (options s) d))
                  (tracking s) (nodes s) \<rparr>"

text \<open>Input bindings: the framework stores the new value, then calls \<open>ngOnChanges\<close>.\<close>

datatype input_binding =
    InContent TooltipContent
  | InTrigger TooltipTrigger
  | InPlacement "string option"
  | InShowArrow bool
  | InOffset "int option"
  | InCssModifier "string option"
  | InDisabled bool
  | InManual bool

definition input_name :: "input_binding \<Rightarrow> string" where
  "input_name i =
     (case i of
        InContent c \<Rightarrow> ''content''
      | InTrigger t \<Rightarrow> ''trigger''
      | InPlacement p \<Rightarrow> ''placement''
      | InShowArrow b \<Rightarrow> ''showArrow''
      | InOffset n \<Rightarrow> ''offset''
      | InCssModifier m \<Rightarrow> ''cssModifier''
      | InDisabled b \<Rightarrow> ''disabled''
      | InManual b \<Rightarrow> ''manual'')"

definition set_input :: "input_binding \<Rightarrow> directive \<Rightarrow> directive" where
  "set_input i s =
     (case i of
        InContent c \<Rightarrow> s\<lparr> content := c \<rparr>
      | InTrigger t \<Rightarrow> s\<lparr> trigger := t \<rparr>
      | InPlacement p \<Rightarrow> s\<lparr> placement := p \<rparr>
      | InShowArrow b \<Rightarrow> s\<lparr> showArrow := b \<rparr>
      | InOffset n \<Rightarrow> s\<lparr> offset := n \<rparr>
      | InCssModifier m \<Rightarrow> s\<lparr> cssModifier := m \<rparr>
      | InDisabled b \<Rightarrow> s\<lparr> disabled := b \<rparr>
      | InManual b \<Rightarrow> s\<lparr> manual := b \<rparr>)"

text \<open>
  Everything that can happen to an instance: input bindings (with the \<open>firstChange\<close>
  flag), lifecycle hooks, API calls, DOM events on the trigger, the passing of time, and
  position updates.
\<close>

datatype event =
    Bind input_binding bool
  | NgAfterViewInit
  | NgOnDestroy
  | ApiShow
  | ApiHide
  | ApiToggle
  | Dispatch dom_event
  | Advance nat
  | Reposition ComputePositionReturn

definition step :: "event \<Rightarrow> directive \<Rightarrow> directive" where
  "step e s =
     (case e of
        Bind i firstChange \<Rightarrow> ngOnChanges [input_name i \<mapsto> firstChange] (set_input i s)
      | NgAfterViewInit \<Rightarrow> ngAfterViewInit s
      | NgOnDestroy \<Rightarrow> ngOnDestroy s
      | ApiShow \<Rightarrow> show s
      | ApiHide \<Rightarrow> hide s
      | ApiToggle \<Rightarrow> toggle s
      | Dispatch ev \<Rightarrow> dispatchEvent ev s
      | Advance d \<Rightarrow> advance d s
      | Reposition r \<Rightarrow> reposition r s)"

definition run :: "event list \<Rightarrow> directive \<Rightarrow> directive" where
  "run es s = fold step es s"

definition is_api :: "event \<Rightarrow> bool" where
  "is_api e = (case e of ApiShow \<Rightarrow> True | ApiHide \<Rightarrow> True | ApiToggle \<Rightarrow> True | _ \<Rightarrow> False)"

text \<open>Events that happen to an instance without anyone calling into it.\<close>

definition is_passive :: "event \<Rightarrow> bool" where
  "is_passive e = (case e of Dispatch ev \<Rightarrow> True | Advance d \<Rightarrow> True | Reposition r \<Rightarrow> True | _ \<Rightarrow> False)"

section \<open>The earlier revision of createElement\<close>

text \<open>
  The earlier revision of the directive declared the content input as
  \<^verbatim>\<open>Type<any> | TemplateRef<any> | string | number\<close> and had a third branch in
  \<open>createElement\<close>, for component classes. \<open>createComponent\<close> instantiates the class
  against the one environment injector the directive has injected and yields a component
  reference with a new host element, whose node name is the selector in upper case as the
  DOM of an HTML document reports it; \<open>appRef.attachView\<close> adds its host view to the
  application's views. That revision had no css modifier and passed the number 123 as the
  implicit context of a template.
\<close>

definition createComponent :: "string \<Rightarrow> directive \<Rightarrow> (nat \<times> nat) \<times> directive" where
  "createComponent selector s =
     (let c = fresh s;
          h = next_node (nodes s)
      in ((c, h), s\<lparr> fresh := Suc c,
                      nodes := (nodes s)\<lparr> elems := (elems (nodes s))(h := new_element (toUpperCase selector)),
                                           next_node := Suc h \<rparr> \<rparr>))"

definition attachView :: "nat \<Rightarrow> directive \<Rightarrow> directive" where
  "attachView c s = s\<lparr> appViews := appViews s @ [c] \<rparr>"

definition createElement_earlier :: "bool \<Rightarrow> directive \<Rightarrow> (nat \<times> nat option) \<times> directive" where
  "createElement_earlier createArrow s =
     (let (tooltipEl, d1) = createEl [''floating-tooltip''] (nodes s);
          (tooltipContent, d2) = createEl [''floating-tooltip__content''] d1;
          s3 = s\<lparr> nodes := setAttribute tooltipEl ''tabindex'' ''-1'' d2 \<rparr>;
          s4 = (case content s3 of
                  TemplateRef roots \<Rightarrow>
                    (let ((v, rootNodes), t1) = createEmbeddedView roots (ImplicitNumber 123) s3
                     in t1\<lparr> embdedViewRef := Some v,
                            nodes := fold (appendChild tooltipContent) rootNodes (nodes t1) \<rparr>)
                | StringContent t \<Rightarrow>
                    s3\<lparr> nodes := setTextContent tooltipContent (String_content (content s3)) (nodes s3) \<rparr>
                | NumberContent n \<Rightarrow>
                    s3\<lparr> nodes := setTextContent tooltipContent (String_content (content s3)) (nodes s3) \<rparr>
                | ComponentType selector source \<Rightarrow>
                    (let ((c, host), t1) = createComponent selector s3;
                         t2 = attachView c (t1\<lparr> componentRef := Some c \<rparr>)
                     in t2\<lparr> nodes := appendChild tooltipContent host (nodes t2) \<rparr>));
          (arrowEl, d5) = (if createArrow
                           then (let (a, d) = createEl [''floating-tooltip__arrow''] (nodes s4)
                                 in (Some a, appendChild tooltipEl a d))
                           else (None, nodes s4));
          d6 = appendChild tooltipEl tooltipContent d5
      in ((tooltipEl, arrowEl), s4\<lparr> nodes := d6, body := body s4 @ [tooltipEl] \<rparr>))"

section \<open>Example instances and events\<close>

text \<open>
  A button with a text tooltip and the default options: in a browser with mouse events, in
  a browser on a touch device, and rendered on the server.
\<close>

definition mouse_button :: directive where
  "mouse_button = new_directive DEFAULT_OPTIONS False True (new_element ''BUTTON'') (StringContent ''hi'')"

definition touch_button :: directive where
  "touch_button = new_directive DEFAULT_OPTIONS False False (new_element ''BUTTON'') (StringContent ''hi'')"

definition server_button :: directive where
  "server_button = new_directive DEFAULT_OPTIONS True True (new_element ''BUTTON'') (StringContent ''hi'')"

text \<open>The same button bound to a component class instead of a text.\<close>

definition component_button :: directive where
  "component_button = new_directive DEFAULT_OPTIONS False True (new_element ''BUTTON'')
     (ComponentType ''app-test'' ''class TestComponent { }'')"

definition dom_event_of :: "string \<Rightarrow> dom_event" where
  "dom_event_of t = \<lparr> event_type = t, pointer_off_trigger = False \<rparr>"

section \<open>Consistency of the instance with its surroundings\<close>

text \<open>
  A list of live objects holds at most one object, and then the one the given reference
  names.
\<close>

definition at_most_one :: "nat option \<Rightarrow> ('a \<Rightarrow> nat) \<Rightarrow> 'a list \<Rightarrow> bool" where
  "at_most_one r key xs = (case xs of [] \<Rightarrow> True | x # ys \<Rightarrow> ys = [] \<and> r = Some (key x))"

text \<open>Every registration on the trigger element is one the directive has recorded.\<close>

definition registered :: "directive \<Rightarrow> bool" where
  "registered s = list_all (\<lambda>l. list_ex (same_registration l) (eventListeners s)) (attached s)"

definition consistent :: "directive \<Rightarrow> bool" where
  "consistent s =
     (at_most_one (tooltipElRef s) id (body s) \<and>
      at_most_one (embdedViewRef s) fst (views s) \<and>
      at_most_one (cleanupFn s) tracker_id (tracking s) \<and>
      at_most_one (touchstartTimeout s) fst (timers s) \<and>
      (p_isVisible s \<or> (body s = [] \<and> views s = [] \<and> tracking s = [])) \<and>
      appViews s = [] \<and>
      registered s)"

section \<open>Effects of the operations, field by field\<close>

lemma without_idem [simp]: "without r k (without r k xs) = without r k xs"
  by (simp add: without_def split: option.splits)

lemma without_Nil [simp]: "without r k [] = []"
  by (simp add: without_def split: option.splits)

lemma without_None [simp]: "without None k xs = xs"
  by (simp add: without_def)

lemma at_most_one_Nil [simp]: "at_most_one r k []"
  by (simp add: at_most_one_def)

lemma at_most_one_single [simp]: "at_most_one r k [x] = (r = Some (k x))"
  by (simp add: at_most_one_def)

lemma at_most_one_without: "at_most_one r k xs \<Longrightarrow> without r k xs = []"
  by (cases xs) (auto simp: at_most_one_def without_def split: option.splits)

lemma at_most_one_filtered: "at_most_one r k xs \<Longrightarrow> at_most_one r k (without q k xs)"
  by (cases xs) (auto simp: at_most_one_def without_def split: option.splits)

lemma at_most_one_length: "at_most_one r k xs \<Longrightarrow> length xs \<le> 1"
  by (cases xs) (simp_all add: at_most_one_def)

lemma destroy_eq:
  "destroy s = s\<lparr>
     views := without (embdedViewRef s) fst (views s),
     appViews := without (componentRef s) id (appViews s),
     body := without (tooltipElRef s) id (body s),
     tracking := without (cleanupFn s) tracker_id (tracking s),
     timers := without (touchstartTimeout s) fst (timers s) \<rparr>"
  by (simp add: destroy_def clearTimeout_def Let_def)

lemma createElement_fst: "fst (fst (createElement b s)) = next_node (nodes s)"
  by (simp add: createElement_def createEl_def Let_def case_prod_beta)

lemma createElement_snd:
  "snd (createElement b s) = s\<lparr>
     nodes := nodes (snd (createElement b s)),
     views := views s @ (case content s of TemplateRef r \<Rightarrow> [(fresh s, ImplicitClose)] | _ \<Rightarrow> []),
     fresh := fresh (snd (createElement b s)),
     embdedViewRef := (case content s of TemplateRef r \<Rightarrow> Some (fresh s) | _ \<Rightarrow> embdedViewRef s),
     body := body s @ [next_node (nodes s)] \<rparr>"
  by (cases "content s") (simp_all add: createElement_def createEl_def createEmbeddedView_def Let_def case_prod_beta)

lemma render_eq:
  "render s = s\<lparr>
     nodes := nodes (render s),
     views := views s @ (case content s of TemplateRef r \<Rightarrow> [(fresh s, ImplicitClose)] | _ \<Rightarrow> []),
     fresh := fresh (render s),
     embdedViewRef := (case content s of TemplateRef r \<Rightarrow> Some (fresh s) | _ \<Rightarrow> embdedViewRef s),
     body := body s @ [next_node (nodes s)],
     tracking := tracking s @ [last (tracking (render s))],
     cleanupFn := Some (tracker_id (last (tracking (render s)))),
     tooltipElRef := Some (next_node (nodes s)) \<rparr>"
proof -
  obtain r t where c: "createElement (showArrow s) s = (r, t)"
    by (cases "createElement (showArrow s) s")
  have t: "t = snd (createElement (showArrow s) s)" and r: "fst r = next_node (nodes s)"
    using c createElement_fst [of "showArrow s" s] by simp_all
  show ?thesis
    unfolding render_def c
    by (subst (1 2 3 4 5) t, subst (1 2 3 4 5) createElement_snd) (simp add: Let_def case_prod_beta r)
qed

lemma render_simps [simp]:
  "p_isVisible (render s) = p_isVisible s"
  "componentRef (render s) = componentRef s"
  "touchstartTimeout (render s) = touchstartTimeout s"
  "eventListeners (render s) = eventListeners s"
  "attached (render s) = attached s"
  "appViews (render s) = appViews s"
  "timers (render s) = timers s"
  "isServer (render s) = isServer s"
  "manual (render s) = manual s"
  "disabled (render s) = disabled s"
  "trigger (render s) = trigger s"
  "supportsMouseEvents (render s) = supportsMouseEvents s"
  "options (render s) = options s"
  "content (render s) = content s"
  "nativeElement (render s) = nativeElement s"
  "clock (render s) = clock s"
  "body (render s) = body s @ [next_node (nodes s)]"
  "tooltipElRef (render s) = Some (next_node (nodes s))"
  "views (render s) = views s @ (case content s of TemplateRef r \<Rightarrow> [(fresh s, ImplicitClose)] | _ \<Rightarrow> [])"
  "embdedViewRef (render s) = (case content s of TemplateRef r \<Rightarrow> Some (fresh s) | _ \<Rightarrow> embdedViewRef s)"
  by (subst render_eq, simp)+

lemma render_tracking:
  "tracking (render s) = tracking s @ [last (tracking (render s))]"
  "cleanupFn (render s) = Some (tracker_id (last (tracking (render s))))"
  by (subst render_eq, simp)+

section \<open>Consistency is preserved by every event\<close>

lemma consistent_destroy:
  assumes "consistent s"
  shows "consistent (destroy s)"
    and "body (destroy s) = []" and "views (destroy s) = []"
    and "tracking (destroy s) = []" and "timers (destroy s) = []"
  using assms
  by (simp_all add: consistent_def destroy_eq at_most_one_without registered_def)

lemma consistent_render:
  assumes "consistent s" "p_isVisible s" "body s = []" "views s = []" "tracking s = []"
  shows "consistent (render s)"
proof -
  have "at_most_one (cleanupFn (render s)) tracker_id (tracking (render s))"
    using assms(5) render_tracking [of s] by (metis append_Nil at_most_one_single)
  then show ?thesis
    using assms by (simp add: consistent_def registered_def split: TooltipContent.splits)
qed

lemma consistent_visible_flag:
  "consistent s \<Longrightarrow> consistent (s\<lparr> p_isVisible := True \<rparr>)"
  "consistent s \<Longrightarrow> body s = [] \<Longrightarrow> views s = [] \<Longrightarrow> tracking s = [] \<Longrightarrow> consistent (s\<lparr> p_isVisible := b \<rparr>)"
  by (simp_all add: consistent_def registered_def)

lemma destroy_simps [simp]:
  "p_isVisible (destroy s) = p_isVisible s"
  "tooltipElRef (destroy s) = tooltipElRef s"
  "embdedViewRef (destroy s) = embdedViewRef s"
  "componentRef (destroy s) = componentRef s"
  "cleanupFn (destroy s) = cleanupFn s"
  "touchstartTimeout (destroy s) = touchstartTimeout s"
  "eventListeners (destroy s) = eventListeners s"
  "attached (destroy s) = attached s"
  "isServer (destroy s) = isServer s"
  "manual (destroy s) = manual s"
  "disabled (destroy s) = disabled s"
  "trigger (destroy s) = trigger s"
  "supportsMouseEvents (destroy s) = supportsMouseEvents s"
  "options (destroy s) = options s"
  "content (destroy s) = content s"
  "nativeElement (destroy s) = nativeElement s"
  "clock (destroy s) = clock s"
  "nodes (destroy s) = nodes s"
  "fresh (destroy s) = fresh s"
  by (simp_all add: destroy_eq)

lemma consistent_show:
  assumes "consistent s"
  shows "consistent (show s)"
proof (cases "p_isVisible s")
  case True
  with assms show ?thesis by (simp add: show_def)
next
  case False
  let ?t = "destroy (s\<lparr> p_isVisible := True \<rparr>)"
  have c1: "consistent (s\<lparr> p_isVisible := True \<rparr>)"
    using assms by (rule consistent_visible_flag(1))
  have "consistent ?t" "body ?t = []" "views ?t = []" "tracking ?t = []"
    using consistent_destroy [OF c1] by blast+
  moreover have "p_isVisible ?t" by simp
  ultimately have "consistent (render ?t)" by (simp add: consistent_render)
  with False show ?thesis by (simp add: show_def)
qed

lemma consistent_hide:
  assumes "consistent s"
  shows "consistent (hide s)"
proof (cases "p_isVisible s")
  case True
  have d: "consistent (destroy s)" "body (destroy s) = []" "views (destroy s) = []" "tracking (destroy s) = []"
    using assms consistent_destroy by blast+
  have "destroy (s\<lparr> p_isVisible := False \<rparr>) = (destroy s)\<lparr> p_isVisible := False \<rparr>"
    by (simp add: destroy_eq)
  with True d show ?thesis
    by (simp add: hide_def consistent_visible_flag)
next
  case False
  with assms show ?thesis by (simp add: hide_def)
qed

lemma consistent_toggle: "consistent s \<Longrightarrow> consistent (toggle s)"
  by (simp add: toggle_def consistent_show consistent_hide)

subsection \<open>Listeners\<close>

lemma same_registration_refl [simp]: "same_registration l l"
  by (simp add: same_registration_def)

lemma same_registration_sym: "same_registration a b = same_registration b a"
  by (auto simp: same_registration_def)

lemma registered_iff:
  "registered s \<longleftrightarrow> (\<forall>k \<in> set (attached s). \<exists>l \<in> set (eventListeners s). same_registration k l)"
  by (simp add: registered_def list_all_iff list_ex_iff)

lemma set_fold_addEventListener:
  "set (fold (\<lambda>l ls. addEventListener ls l) xs a) \<subseteq> set a \<union> set xs"
proof (induction xs arbitrary: a)
  case Nil
  show ?case by simp
next
  case (Cons x xs)
  have "set (addEventListener a x) \<subseteq> set a \<union> {x}"
    by (auto simp: addEventListener_def)
  with Cons.IH [of "addEventListener a x"] show ?case by auto
qed

lemma set_fold_removeEventListener:
  "set (fold (\<lambda>l ls. removeEventListener ls l) xs a) = {k \<in> set a. \<forall>l \<in> set xs. \<not> same_registration l k}"
proof (induction xs arbitrary: a)
  case Nil
  show ?case by simp
next
  case (Cons x xs)
  have "set (removeEventListener a x) = {k \<in> set a. \<not> same_registration x k}"
    by (auto simp: removeEventListener_def)
  with Cons.IH [of "removeEventListener a x"] show ?case by auto
qed

lemma removeListeners_simps [simp]:
  "p_isVisible (removeListeners s) = p_isVisible s"
  "tooltipElRef (removeListeners s) = tooltipElRef s"
  "embdedViewRef (removeListeners s) = embdedViewRef s"
  "componentRef (removeListeners s) = componentRef s"
  "cleanupFn (removeListeners s) = cleanupFn s"
  "touchstartTimeout (removeListeners s) = touchstartTimeout s"
  "eventListeners (removeListeners s) = eventListeners s"
  "body (removeListeners s) = body s"
  "views (removeListeners s) = views s"
  "appViews (removeListeners s) = appViews s"
  "tracking (removeListeners s) = tracking s"
  "timers (removeListeners s) = timers s"
  "isServer (removeListeners s) = isServer s"
  "manual (removeListeners s) = manual s"
  "disabled (removeListeners s) = disabled s"
  "trigger (removeListeners s) = trigger s"
  "supportsMouseEvents (removeListeners s) = supportsMouseEvents s"
  "content (removeListeners s) = content s"
  "nativeElement (removeListeners s) = nativeElement s"
  "clock (removeListeners s) = clock s"
  by (simp_all add: removeListeners_def)

lemma removeListeners_attached:
  assumes "registered s"
  shows "attached (removeListeners s) = []"
proof -
  have "set (attached (removeListeners s)) = {}"
    using assms
    by (auto simp: removeListeners_def set_fold_removeEventListener registered_iff same_registration_sym)
  then show ?thesis by simp
qed

lemma consistent_removeListeners:
  assumes "consistent s"
  shows "consistent (removeListeners s)"
proof -
  have "registered s" using assms by (simp add: consistent_def)
  then have "attached (removeListeners s) = []" by (rule removeListeners_attached)
  then have "registered (removeListeners s)" by (simp add: registered_def)
  with assms show ?thesis by (simp add: consistent_def)
qed

lemma setupClickEvents_eq:
  "setupClickEvents s =
     s\<lparr> eventListeners := eventListeners s @ [(''click'', Callback (fresh s) CallToggle, True)],
        fresh := Suc (fresh s) \<rparr>"
  by (simp add: setupClickEvents_def new_callback_def addListener_def)

lemma setupFocusAndBlurEvents_eq:
  "setupFocusAndBlurEvents s =
     s\<lparr> eventListeners := eventListeners s @
          [(''focus'', Callback (fresh s) CallShow, True),
           (''blur'', Callback (Suc (fresh s)) CallHide, True)],
        fresh := Suc (Suc (fresh s)) \<rparr>"
  by (simp add: setupFocusAndBlurEvents_def new_callback_def addListener_def)

lemma setupMouseEvents_eq:
  "setupMouseEvents s =
     s\<lparr> eventListeners := eventListeners s @
          [(''mouseenter'', Callback (fresh s) CallShow, True),
           (''mouseleave'', Callback (Suc (fresh s)) CallHide, True),
           (''wheel'', Callback (Suc (Suc (fresh s))) WheelHandler, True)],
        fresh := Suc (Suc (Suc (fresh s))) \<rparr>"
  by (simp add: setupMouseEvents_def new_callback_def addListener_def)

lemma setupTouchEvents_eq:
  "setupTouchEvents s =
     s\<lparr> nativeElement := disableNativeGestures (nativeElement s),
        eventListeners := eventListeners s @
          [(''touchstart'', Callback (fresh s) TouchstartHandler, True),
           (''touchend'', Callback (Suc (fresh s)) TouchendHandler, True),
           (''touchcancel'', Callback (Suc (fresh s)) TouchendHandler, True)],
        fresh := Suc (Suc (fresh s)) \<rparr>"
  by (simp add: setupTouchEvents_def new_callback_def addListener_def)

lemma setupListeners_eq:
  "setupListeners s =
     s\<lparr> nativeElement := nativeElement (setupListeners s),
        eventListeners := eventListeners (setupListeners s),
        fresh := fresh (setupListeners s),
        attached := fold (\<lambda>l ls. addEventListener ls l) (eventListeners (setupListeners s)) (attached s) \<rparr>"
  by (simp add: setupListeners_def setupClickEvents_eq setupFocusAndBlurEvents_eq
      setupMouseEvents_eq setupTouchEvents_eq Let_def)

lemma setupListeners_keeps: "set (eventListeners s) \<subseteq> set (eventListeners (setupListeners s))"
  by (auto simp: setupListeners_def setupClickEvents_eq setupFocusAndBlurEvents_eq
      setupMouseEvents_eq setupTouchEvents_eq Let_def)

lemma setupListeners_simps [simp]:
  "p_isVisible (setupListeners s) = p_isVisible s"
  "tooltipElRef (setupListeners s) = tooltipElRef s"
  "embdedViewRef (setupListeners s) = embdedViewRef s"
  "componentRef (setupListeners s) = componentRef s"
  "cleanupFn (setupListeners s) = cleanupFn s"
  "touchstartTimeout (setupListeners s) = touchstartTimeout s"
  "body (setupListeners s) = body s"
  "views (setupListeners s) = views s"
  "appViews (setupListeners s) = appViews s"
  "tracking (setupListeners s) = tracking s"
  "timers (setupListeners s) = timers s"
  "isServer (setupListeners s) = isServer s"
  "manual (setupListeners s) = manual s"
  "disabled (setupListeners s) = disabled s"
  "trigger (setupListeners s) = trigger s"
  "supportsMouseEvents (setupListeners s) = supportsMouseEvents s"
  "content (setupListeners s) = content s"
  "clock (setupListeners s) = clock s"
  by (subst setupListeners_eq, simp)+

lemma setupListeners_attached:
  "attached (setupListeners s) =
     fold (\<lambda>l ls. addEventListener ls l) (eventListeners (setupListeners s)) (attached s)"
  by (subst setupListeners_eq) simp

lemma registered_setupListeners:
  assumes "registered s"
  shows "registered (setupListeners s)"
proof -
  have "set (attached (setupListeners s)) \<subseteq> set (attached s) \<union> set (eventListeners (setupListeners s))"
    by (subst setupListeners_attached) (rule set_fold_addEventListener)
  with assms setupListeners_keeps [of s] show ?thesis
    unfolding registered_iff by (meson UnE same_registration_refl subsetD)
qed

lemma consistent_setupListeners: "consistent s \<Longrightarrow> consistent (setupListeners s)"
  by (simp add: consistent_def registered_setupListeners)

subsection \<open>Handlers, timers, events\<close>

lemma touchstart_eq:
  "run_handler TouchstartHandler ev s =
     s\<lparr> timers := without (touchstartTimeout s) fst (timers s) @
            [(fresh s, clock s + (case options s ''longPressDelay'' of None \<Rightarrow> 0 | Some n \<Rightarrow> nat n))],
        fresh := Suc (fresh s),
        touchstartTimeout := Some (fresh s) \<rparr>"
  by (simp add: run_handler_def clearTimeout_def setTimeout_def Let_def)

lemma consistent_clearTimeout:
  assumes "consistent s"
  shows "consistent (clearTimeout (touchstartTimeout s) s)"
    and "timers (clearTimeout (touchstartTimeout s) s) = []"
  using assms by (simp_all add: consistent_def clearTimeout_def at_most_one_without registered_def)

lemma clearTimeout_simps [simp]:
  "p_isVisible (clearTimeout h s) = p_isVisible s"
  "body (clearTimeout h s) = body s"
  "touchstartTimeout (clearTimeout h s) = touchstartTimeout s"
  "attached (clearTimeout h s) = attached s"
  "eventListeners (clearTimeout h s) = eventListeners s"
  "isServer (clearTimeout h s) = isServer s"
  by (simp_all add: clearTimeout_def)

lemma consistent_run_handler:
  assumes "consistent s"
  shows "consistent (run_handler b ev s)"
proof (cases b)
  case TouchstartHandler
  have "without (touchstartTimeout s) fst (timers s) = []"
    using assms by (simp add: consistent_def at_most_one_without)
  with assms show ?thesis
    unfolding TouchstartHandler touchstart_eq by (simp add: consistent_def registered_def)
next
  case TouchendHandler
  with assms show ?thesis
    by (simp add: run_handler_def consistent_hide consistent_clearTimeout)
qed (use assms in \<open>simp_all add: run_handler_def consistent_show consistent_hide consistent_toggle\<close>)

lemma consistent_call_listener: "consistent s \<Longrightarrow> consistent (call_listener ev l s)"
  by (simp add: call_listener_def consistent_run_handler split: callback.splits)

lemma consistent_fold_listeners: "consistent s \<Longrightarrow> consistent (fold (call_listener ev) ls s)"
  by (induction ls arbitrary: s) (simp_all add: consistent_call_listener)

lemma consistent_dispatchEvent: "consistent s \<Longrightarrow> consistent (dispatchEvent ev s)"
  by (simp add: dispatchEvent_def consistent_fold_listeners)

lemma consistent_fire:
  assumes "consistent s"
  shows "consistent (fire i s)"
proof -
  have "consistent (s\<lparr> timers := without (Some i) fst (timers s) \<rparr>)"
    using assms by (simp add: consistent_def at_most_one_filtered registered_def)
  then show ?thesis
    using assms by (simp add: fire_def consistent_show)
qed

lemma consistent_fold_fire: "consistent s \<Longrightarrow> consistent (fold fire is s)"
  by (induction "is" arbitrary: s) (simp_all add: consistent_fire)

lemma consistent_advance:
  assumes "consistent s"
  shows "consistent (advance d s)"
proof -
  have "consistent (s\<lparr> clock := clock s + d \<rparr>)"
    using assms by (simp add: consistent_def registered_def)
  then show ?thesis
    by (simp add: advance_def Let_def consistent_fold_fire)
qed

lemma consistent_reposition: "consistent s \<Longrightarrow> consistent (reposition r s)"
  by (simp add: reposition_def consistent_def registered_def)

lemma consistent_set_input: "consistent (set_input i s) = consistent s"
  by (cases i) (simp_all add: set_input_def consistent_def registered_def)

lemma consistent_ngOnChanges: "consistent s \<Longrightarrow> consistent (ngOnChanges ch s)"
  by (simp add: ngOnChanges_def consistent_removeListeners consistent_destroy consistent_setupListeners
      split: option.splits)

lemma consistent_ngAfterViewInit: "consistent s \<Longrightarrow> consistent (ngAfterViewInit s)"
  by (simp add: ngAfterViewInit_def consistent_setupListeners)

lemma consistent_ngOnDestroy: "consistent s \<Longrightarrow> consistent (ngOnDestroy s)"
  by (simp add: ngOnDestroy_def consistent_removeListeners consistent_destroy)

lemma consistent_step: "consistent s \<Longrightarrow> consistent (step e s)"
  by (cases e)
    (simp_all add: step_def consistent_ngOnChanges consistent_set_input consistent_ngAfterViewInit
      consistent_ngOnDestroy consistent_show consistent_hide consistent_toggle
      consistent_dispatchEvent consistent_advance consistent_reposition)

lemma consistent_run: "consistent s \<Longrightarrow> consistent (run es s)"
  unfolding run_def by (induction es arbitrary: s) (simp_all add: consistent_step)

lemma consistent_new_directive: "consistent (new_directive opts server mouse el c)"
  by (simp add: consistent_def new_directive_def registered_def)

section \<open>The configuration provider\<close>

text \<open>
  C4. The provider merges the overrides over the hard-coded defaults (arrowHeight 4,
  arrowPadding 5, longPressDelay 500): a field of the override object replaces the
  default of the same name, every other default stays; overriding only arrowHeight with 8
  leaves arrowPadding 5 and longPressDelay 500; and with no provider at all the injected
  value is the defaults.
\<close>

theorem provideFloatingUiOptions_merges_defaults:
  "inject_options (provideFloatingUiOptions opts) k = (case opts k of Some v \<Rightarrow> Some v | None \<Rightarrow> DEFAULT_OPTIONS k)
   \<and> DEFAULT_OPTIONS ''arrowHeight'' = Some 4
   \<and> DEFAULT_OPTIONS ''arrowPadding'' = Some 5
   \<and> DEFAULT_OPTIONS ''longPressDelay'' = Some 500
   \<and> dom DEFAULT_OPTIONS = {''arrowHeight'', ''arrowPadding'', ''longPressDelay''}
   \<and> inject_options (provideFloatingUiOptions [''arrowHeight'' \<mapsto> 8])
       = [''arrowHeight'' \<mapsto> 8, ''arrowPadding'' \<mapsto> 5, ''longPressDelay'' \<mapsto> 500]
   \<and> inject_options (provideFloatingUiOptions Map.empty) = DEFAULT_OPTIONS
   \<and> inject_options [] = DEFAULT_OPTIONS"
proof -
  have merged: "inject_options (provideFloatingUiOptions o') = DEFAULT_OPTIONS ++ o'" for o'
    by (simp add: inject_options_def provideFloatingUiOptions_def spread_def)
  have "(DEFAULT_OPTIONS ++ opts) k = (case opts k of Some v \<Rightarrow> Some v | None \<Rightarrow> DEFAULT_OPTIONS k)"
    by (simp add: map_add_def split: option.splits)
  moreover have "DEFAULT_OPTIONS ++ [''arrowHeight'' \<mapsto> 8]
      = [''arrowHeight'' \<mapsto> 8, ''arrowPadding'' \<mapsto> 5, ''longPressDelay'' \<mapsto> (500::int)]"
    by (rule ext) (simp add: DEFAULT_OPTIONS_def map_add_def)
  moreover have "dom DEFAULT_OPTIONS = {''arrowHeight'', ''arrowPadding'', ''longPressDelay''}"
    by (auto simp: DEFAULT_OPTIONS_def)
  moreover have "inject_options [] = DEFAULT_OPTIONS"
    by (simp add: inject_options_def FLOATING_UI_OPTIONS_factory_def)
  ultimately show ?thesis
    by (simp add: merged) (simp add: DEFAULT_OPTIONS_def)
qed

lemma String_nat_digit: "n < 10 \<Longrightarrow> String_nat n = [digit_char n]"
  by (simp add: String_nat.simps)

lemma px_negated: "0 < h \<Longrightarrow> ''-'' @ String_number h @ ''px'' = px (- h)"
  by (simp add: px_def String_number_def)

lemma split_first_placements:
  "split_first ''top'' = ''top''" "split_first ''top-start'' = ''top''" "split_first ''top-end'' = ''top''"
  "split_first ''bottom'' = ''bottom''" "split_first ''bottom-start'' = ''bottom''" "split_first ''bottom-end'' = ''bottom''"
  "split_first ''left'' = ''left''" "split_first ''left-start'' = ''left''" "split_first ''left-end'' = ''left''"
  "split_first ''right'' = ''right''" "split_first ''right-start'' = ''right''" "split_first ''right-end'' = ''right''"
  by (simp_all add: split_first_def)

lemma setArrowPosition_style:
  "style (setArrowPosition opts el side (ax, ay)) =
     (style el)
       (''left'' := (case ax of Some x \<Rightarrow> px x | None \<Rightarrow> []),
        ''top'' := (case ay of Some y \<Rightarrow> px y | None \<Rightarrow> []),
        ''right'' := [],
        ''bottom'' := [],
        (case arrowSide_of side of None \<Rightarrow> ''undefined'' | Some a \<Rightarrow> a) := ''-'' @ interpolate (opts ''arrowHeight'') @ ''px'')"
  by (simp add: setArrowPosition_def Let_def)

lemma arrowSide_of_sides:
  "arrowSide_of ''top'' = Some ''bottom''" "arrowSide_of ''bottom'' = Some ''top''"
  "arrowSide_of ''left'' = Some ''right''" "arrowSide_of ''right'' = Some ''left''"
  by (simp_all add: arrowSide_of_def)

lemma setTooltipPosition_arrow:
  assumes "arrow_data r = Some (ax, ay)" and "a \<noteq> t"
  shows "fst (setTooltipPosition t (Some a) r opts d) = None"
    and "style (elems (snd (setTooltipPosition t (Some a) r opts d)) a) =
          (style (elems d a))
            (''left'' := (case ax of Some x \<Rightarrow> px x | None \<Rightarrow> []),
             ''top'' := (case ay of Some y \<Rightarrow> px y | None \<Rightarrow> []),
             ''right'' := [],
             ''bottom'' := [],
             (case arrowSide_of (split_first (pos_placement r)) of None \<Rightarrow> ''undefined'' | Some a \<Rightarrow> a)
               := ''-'' @ interpolate (opts ''arrowHeight'') @ ''px'')"
    and "style (elems (snd (setTooltipPosition t (Some a) r opts d)) t) =
          (style (elems d t))(''left'' := px (pos_x r), ''top'' := px (pos_y r))"
  using assms by (simp_all add: setTooltipPosition_def setStyle_def setArrowPosition_style Let_def)

text \<open>
  C5. For each of the twelve placements the engine can return, the arrow gets the
  cross-axis offset supplied by the arrow middleware (left for placements above or below
  the trigger, top for placements beside it), and the text -arrowHeight px on the side
  opposite to the placement's primary side: bottom for top placements, top for bottom
  placements, right for left placements, left for right placements. The arrow height is a
  positive number, so that text is the pixel length of its negation.
\<close>

theorem arrow_offset_on_opposite_side:
  assumes "pos_placement r \<in> set placements"
    and "opts ''arrowHeight'' = Some h"
    and "0 < h"
    and "arrow_data r = Some (ax, ay)"
    and "a \<noteq> t"
  shows "let p = pos_placement r;
             res = setTooltipPosition t (Some a) r opts d;
             st = style (elems (snd res) a);
             off = ''-'' @ String_number h @ ''px'';
             cross_x = (case ax of Some x \<Rightarrow> px x | None \<Rightarrow> []);
             cross_y = (case ay of Some y \<Rightarrow> px y | None \<Rightarrow> [])
         in fst res = None
          \<and> (if p \<in> {''top'', ''top-start'', ''top-end''}
              then st ''bottom'' = off \<and> st ''left'' = cross_x \<and> st ''top'' = cross_y \<and> st ''right'' = []
              else if p \<in> {''bottom'', ''bottom-start'', ''bottom-end''}
              then st ''top'' = off \<and> st ''left'' = cross_x \<and> st ''right'' = [] \<and> st ''bottom'' = []
              else if p \<in> {''left'', ''left-start'', ''left-end''}
              then st ''right'' = off \<and> st ''top'' = cross_y \<and> st ''left'' = cross_x \<and> st ''bottom'' = []
              else st ''left'' = off \<and> st ''top'' = cross_y \<and> st ''right'' = [] \<and> st ''bottom'' = [])
          \<and> off = px (- h)"
proof -
  note eqs = setTooltipPosition_arrow [OF assms(4,5), of opts d]
  have off: "''-'' @ interpolate (opts ''arrowHeight'') @ ''px'' = ''-'' @ String_number h @ ''px''"
    using assms(2) by (simp add: interpolate_def)
  consider "pos_placement r = ''top''" | "pos_placement r = ''top-start''" | "pos_placement r = ''top-end''"
    | "pos_placement r = ''bottom''" | "pos_placement r = ''bottom-start''" | "pos_placement r = ''bottom-end''"
    | "pos_placement r = ''left''" | "pos_placement r = ''left-start''" | "pos_placement r = ''left-end''"
    | "pos_placement r = ''right''" | "pos_placement r = ''right-start''" | "pos_placement r = ''right-end''"
    using assms(1) by (auto simp: placements_def)
  then have sides:
    "if pos_placement r \<in> {''top'', ''top-start'', ''top-end''}
       then arrowSide_of (split_first (pos_placement r)) = Some ''bottom''
     else if pos_placement r \<in> {''bottom'', ''bottom-start'', ''bottom-end''}
       then arrowSide_of (split_first (pos_placement r)) = Some ''top''
     else if pos_placement r \<in> {''left'', ''left-start'', ''left-end''}
       then arrowSide_of (split_first (pos_placement r)) = Some ''right''
     else arrowSide_of (split_first (pos_placement r)) = Some ''left''"
    by cases (simp_all add: split_first_placements arrowSide_of_sides)
  have neg: "''-'' @ String_number h @ ''px'' = px (- h)"
    using assms(3) by (rule px_negated)
  show ?thesis
    unfolding Let_def eqs off
    using sides neg by (simp split: if_splits)
qed

theorem arrow_offset_on_opposite_side_witness:
  "''top-start'' \<in> set placements
   \<and> DEFAULT_OPTIONS ''arrowHeight'' = Some 4
   \<and> (0::int) < 4
   \<and> (let res = setTooltipPosition 0 (Some 1)
                \<lparr> pos_x = 10, pos_y = 20, pos_placement = ''top-start'',
                  arrow_data = Some (Some 12, None) \<rparr> DEFAULT_OPTIONS empty_dom
      in fst res = None
       \<and> style (elems (snd res) 1) ''bottom'' = ''-4px''
       \<and> style (elems (snd res) 1) ''left'' = ''12px''
       \<and> style (elems (snd res) 1) ''top'' = []
       \<and> style (elems (snd res) 1) ''right'' = [])"
  using arrow_offset_on_opposite_side
    [of "\<lparr> pos_x = 10, pos_y = 20, pos_placement = ''top-start'', arrow_data = Some (Some 12, None) \<rparr>"
        DEFAULT_OPTIONS 4 "Some 12" None 1 0 empty_dom]
  by (simp add: placements_def DEFAULT_OPTIONS_def Let_def px_def String_number_def
      String_nat.simps digit_char_def)

text \<open>
  C9 as stated fails twice. Nothing sets a callout override: on a plain button the callout
  property is still unset afterwards. And the drag exception is the other way round: the
  drag override is set on a trigger that is not draggable, and left out on a trigger that
  is draggable.
\<close>

theorem disableNativeGestures_callout_and_drag:
  "style (disableNativeGestures (new_element ''BUTTON'')) ''webkitTouchCallout'' \<noteq> ''none''
   \<and> style (disableNativeGestures (new_element ''BUTTON'')) ''webkitTouchCallout''
       = style (new_element ''BUTTON'') ''webkitTouchCallout''
   \<and> \<not> draggable (new_element ''BUTTON'')
   \<and> style (disableNativeGestures (new_element ''BUTTON'')) ''webkitUserDrag'' = ''none''
   \<and> draggable ((new_element ''BUTTON'')\<lparr> draggable := True \<rparr>)
   \<and> style (disableNativeGestures ((new_element ''BUTTON'')\<lparr> draggable := True \<rparr>)) ''webkitUserDrag''
       \<noteq> ''none''"
  by (simp add: disableNativeGestures_def new_element_def blank_style_def Let_def)

text \<open>
  C9, amended. When touch long-press is the show gesture (hover trigger on a device
  without mouse events), setting up the listeners applies disableNativeGestures to the
  trigger element. It sets the four user-select properties to none unless the trigger is
  an INPUT or a TEXTAREA, sets webkitUserDrag to none unless the trigger is draggable, and
  always sets touchAction to none and webkitTapHighlightColor to transparent. Every other
  style property, the callout property among them, keeps its value.
\<close>

theorem disableNativeGestures_overrides:
  "style (disableNativeGestures el) k =
     (if k \<in> {''userSelect'', ''msUserSelect'', ''webkitUserSelect'', ''MozUserSelect''}
      then (if nodeName el \<noteq> ''INPUT'' \<and> nodeName el \<noteq> ''TEXTAREA'' then ''none'' else style el k)
      else if k = ''webkitUserDrag'' then (if \<not> draggable el then ''none'' else style el k)
      else if k = ''touchAction'' then ''none''
      else if k = ''webkitTapHighlightColor'' then ''transparent''
      else style el k)
   \<and> nodeName (disableNativeGestures el) = nodeName el
   \<and> draggable (disableNativeGestures el) = draggable el
   \<and> nativeElement (setupListeners s) =
       (if trigger s = Hover \<and> \<not> supportsMouseEvents s
        then disableNativeGestures (nativeElement s) else nativeElement s)"
proof -
  have "trigger s = Click \<or> trigger s = Hover"
    by (cases "trigger s") simp_all
  then have "nativeElement (setupListeners s) =
       (if trigger s = Hover \<and> \<not> supportsMouseEvents s
        then disableNativeGestures (nativeElement s) else nativeElement s)"
    by (auto simp: setupListeners_def setupClickEvents_eq setupFocusAndBlurEvents_eq
        setupMouseEvents_eq setupTouchEvents_eq Let_def)
  then show ?thesis
    by (simp add: disableNativeGestures_def Let_def)
qed

section \<open>Reachable states\<close>

lemma consistent_reachable: "consistent (run es (new_directive opts server mouse el c))"
  by (simp add: consistent_run consistent_new_directive)

lemma show_visible: "p_isVisible s \<Longrightarrow> show s = s"
  by (simp add: show_def)

lemma hide_hidden: "\<not> p_isVisible s \<Longrightarrow> hide s = s"
  by (simp add: hide_def)

lemma show_simps [simp]:
  "p_isVisible (show s) = True"
  "componentRef (show s) = componentRef s"
  "touchstartTimeout (show s) = touchstartTimeout s"
  "eventListeners (show s) = eventListeners s"
  "attached (show s) = attached s"
  "appViews (show s) = (if p_isVisible s then appViews s else without (componentRef s) id (appViews s))"
  "timers (show s) = (if p_isVisible s then timers s else without (touchstartTimeout s) fst (timers s))"
  "isServer (show s) = isServer s"
  "manual (show s) = manual s"
  "disabled (show s) = disabled s"
  "trigger (show s) = trigger s"
  "supportsMouseEvents (show s) = supportsMouseEvents s"
  "options (show s) = options s"
  "content (show s) = content s"
  "nativeElement (show s) = nativeElement s"
  "clock (show s) = clock s"
  by (simp_all add: show_def destroy_eq)

lemma hide_simps [simp]:
  "p_isVisible (hide s) = False"
  "tooltipElRef (hide s) = tooltipElRef s"
  "embdedViewRef (hide s) = embdedViewRef s"
  "componentRef (hide s) = componentRef s"
  "cleanupFn (hide s) = cleanupFn s"
  "touchstartTimeout (hide s) = touchstartTimeout s"
  "eventListeners (hide s) = eventListeners s"
  "attached (hide s) = attached s"
  "timers (hide s) = (if p_isVisible s then without (touchstartTimeout s) fst (timers s) else timers s)"
  "isServer (hide s) = isServer s"
  "manual (hide s) = manual s"
  "disabled (hide s) = disabled s"
  "trigger (hide s) = trigger s"
  "supportsMouseEvents (hide s) = supportsMouseEvents s"
  "options (hide s) = options s"
  "content (hide s) = content s"
  "nativeElement (hide s) = nativeElement s"
  "clock (hide s) = clock s"
  "nodes (hide s) = nodes s"
  "fresh (hide s) = fresh s"
  by (simp_all add: hide_def destroy_eq)

lemma show_idem: "show (show s) = show s"
  by (simp add: show_visible)

lemma hide_idem: "hide (hide s) = hide s"
  by (simp add: hide_hidden)

lemma destroy_idem: "destroy (destroy s) = destroy s"
  by (simp add: destroy_eq)

lemma show_body_hidden:
  assumes "consistent s" and "\<not> p_isVisible s"
  shows "body (show s) = [next_node (nodes s)]"
proof -
  have "consistent (s\<lparr> p_isVisible := True \<rparr>)"
    using assms(1) by (rule consistent_visible_flag(1))
  then have "body (destroy (s\<lparr> p_isVisible := True \<rparr>)) = []"
    by (rule consistent_destroy(2))
  with assms(2) show ?thesis by (simp add: show_def)
qed

lemma hide_clears:
  assumes "consistent s"
  shows "body (hide s) = []" and "views (hide s) = []" and "tracking (hide s) = []"
    and "appViews (hide s) = []"
proof -
  have h: "consistent (hide s)" using assms by (rule consistent_hide)
  then show "body (hide s) = []" "views (hide s) = []" "tracking (hide s) = []" "appViews (hide s) = []"
    by (simp_all add: consistent_def)
qed

text \<open>
  C7 as stated fails: teardown removes the panel and the view but keeps the stored
  references. After one show and one hide of a template tooltip the panel is gone and the
  references still name it.
\<close>

theorem hide_keeps_stored_references:
  "let s = run [ApiShow, ApiHide]
             (new_directive DEFAULT_OPTIONS False True (new_element ''BUTTON'') (TemplateRef [''SPAN'']))
   in body s = [] \<and> views s = [] \<and> tooltipElRef s = Some 0 \<and> embdedViewRef s = Some 0
      \<and> tooltipElRef s \<noteq> None \<and> embdedViewRef s \<noteq> None"
proof -
  let ?s0 = "new_directive DEFAULT_OPTIONS False True (new_element ''BUTTON'') (TemplateRef [''SPAN''])"
  have c: "consistent (show ?s0)"
    by (simp add: consistent_show consistent_new_directive)
  have refs: "tooltipElRef (show ?s0) = Some 0" "embdedViewRef (show ?s0) = Some 0"
    by (simp_all add: show_def new_directive_def empty_dom_def)
  show ?thesis
    using hide_clears [OF c] refs by (simp add: run_def step_def Let_def)
qed

text \<open>
  C7, amended. Teardown is idempotent and leaves a fresh instance as it is; it keeps the
  stored references to the view, the component, the panel and the position subscription.
  In every reachable state a hide leaves no panel, no live embedded view, no component
  view and no position subscription, a teardown moreover no pending timeout, and hiding
  twice is hiding once.
\<close>

theorem teardown_idempotent:
  "destroy (destroy s) = destroy s
   \<and> hide (hide s) = hide s
   \<and> destroy (new_directive opts server mouse el c) = new_directive opts server mouse el c
   \<and> tooltipElRef (destroy s) = tooltipElRef s
   \<and> embdedViewRef (destroy s) = embdedViewRef s
   \<and> componentRef (destroy s) = componentRef s
   \<and> cleanupFn (destroy s) = cleanupFn s
   \<and> (let t = hide (run es (new_directive opts server mouse el c))
      in body t = [] \<and> views t = [] \<and> appViews t = [] \<and> tracking t = [])
   \<and> (let t = destroy (run es (new_directive opts server mouse el c))
      in body t = [] \<and> views t = [] \<and> appViews t = [] \<and> tracking t = [] \<and> timers t = [])"
proof -
  let ?r = "run es (new_directive opts server mouse el c)"
  have c: "consistent ?r" by (rule consistent_reachable)
  have fresh: "destroy (new_directive opts server mouse el c) = new_directive opts server mouse el c"
    by (simp add: destroy_eq new_directive_def)
  have "appViews (destroy ?r) = []"
    using consistent_destroy(1) [OF c] by (simp add: consistent_def)
  then show ?thesis
    using hide_clears [OF c] consistent_destroy [OF c]
    by (simp add: destroy_idem hide_idem fresh Let_def)
qed

section \<open>Runs\<close>

lemma run_Nil [simp]: "run [] s = s"
  by (simp add: run_def)

lemma run_Cons [simp]: "run (e # es) s = run es (step e s)"
  by (simp add: run_def)

lemma run_append: "run (es @ fs) s = run fs (run es s)"
  by (simp add: run_def)

lemma step_simps:
  "step NgAfterViewInit s = ngAfterViewInit s"
  "step NgOnDestroy s = ngOnDestroy s"
  "step ApiShow s = show s"
  "step ApiHide s = hide s"
  "step ApiToggle s = toggle s"
  "step (Dispatch ev) s = dispatchEvent ev s"
  "step (Advance d) s = advance d s"
  "step (Reposition r) s = reposition r s"
  "step (Bind i fc) s = ngOnChanges [input_name i \<mapsto> fc] (set_input i s)"
  by (simp_all add: step_def)

lemma ngOnChanges_disabled:
  "ngOnChanges [''disabled'' \<mapsto> False] s =
     (if manual s \<or> isServer s then s
      else if disabled s then removeListeners (if p_isVisible s then destroy s else s)
      else setupListeners s)"
  by (simp add: ngOnChanges_def)

lemma ngOnChanges_first: "ngOnChanges [k \<mapsto> True] s = s"
  by (simp add: ngOnChanges_def)

lemma ngAfterViewInit_simps [simp]:
  "p_isVisible (ngAfterViewInit s) = p_isVisible s"
  "isServer (ngAfterViewInit s) = isServer s"
  "manual (ngAfterViewInit s) = manual s"
  "disabled (ngAfterViewInit s) = disabled s"
  "trigger (ngAfterViewInit s) = trigger s"
  "supportsMouseEvents (ngAfterViewInit s) = supportsMouseEvents s"
  "body (ngAfterViewInit s) = body s"
  "timers (ngAfterViewInit s) = timers s"
  by (simp_all add: ngAfterViewInit_def)

text \<open>What disabling does to a visible instance in a browser.\<close>

lemma disable_while_visible:
  assumes "consistent s" and "p_isVisible s" and "\<not> manual s" and "\<not> isServer s"
  defines "t \<equiv> step (Bind (InDisabled True) False) s"
  shows "p_isVisible t" and "body t = []" and "attached t = []" and "show t = t"
    and "manual t = manual s" and "isServer t = isServer s" and "consistent t"
proof -
  let ?d = "s\<lparr> disabled := True \<rparr>"
  have cd: "consistent ?d"
    using assms(1) consistent_set_input [of "InDisabled True" s] by (simp add: set_input_def)
  have t: "t = removeListeners (destroy ?d)"
    using assms(2-4) by (simp add: t_def step_simps input_name_def set_input_def ngOnChanges_disabled)
  show v: "p_isVisible t" using assms(2) by (simp add: t)
  show "body t = []" using consistent_destroy(2) [OF cd] by (simp add: t)
  have "registered (destroy ?d)"
    using consistent_destroy(1) [OF cd] by (simp add: consistent_def)
  then show "attached t = []" unfolding t by (rule removeListeners_attached)
  show "show t = t" using v by (rule show_visible)
  show "manual t = manual s" "isServer t = isServer s" by (simp_all add: t)
  show "consistent t"
    unfolding t by (rule consistent_removeListeners) (rule consistent_destroy(1) [OF cd])
qed

lemma mouse_button_shown:
  "consistent (run [NgAfterViewInit, ApiShow] mouse_button)"
  "p_isVisible (run [NgAfterViewInit, ApiShow] mouse_button)"
  "\<not> manual (run [NgAfterViewInit, ApiShow] mouse_button)"
  "\<not> isServer (run [NgAfterViewInit, ApiShow] mouse_button)"
  "body (run [NgAfterViewInit, ApiShow] mouse_button) = [0]"
proof -
  have c: "consistent (ngAfterViewInit mouse_button)"
    unfolding mouse_button_def by (simp add: consistent_ngAfterViewInit consistent_new_directive)
  have h: "\<not> p_isVisible (ngAfterViewInit mouse_button)"
    by (simp add: mouse_button_def new_directive_def)
  have n: "next_node (nodes (ngAfterViewInit mouse_button)) = 0"
    by (simp add: ngAfterViewInit_def mouse_button_def new_directive_def empty_dom_def)
       (subst setupListeners_eq, simp add: empty_dom_def)
  show "consistent (run [NgAfterViewInit, ApiShow] mouse_button)"
    unfolding mouse_button_def by (rule consistent_reachable)
  show "p_isVisible (run [NgAfterViewInit, ApiShow] mouse_button)"
    "\<not> manual (run [NgAfterViewInit, ApiShow] mouse_button)"
    "\<not> isServer (run [NgAfterViewInit, ApiShow] mouse_button)"
    by (simp_all add: step_simps) (simp_all add: mouse_button_def new_directive_def)
  show "body (run [NgAfterViewInit, ApiShow] mouse_button) = [0]"
    using show_body_hidden [OF c h] n by (simp add: step_simps)
qed

text \<open>
  C1, the code at the failing input: a visible instance is disabled, then show is called
  twice. Disabling removed the panel and left the visibility flag set, so both shows return
  at their guard and no panel exists, where the claim promises exactly one.
\<close>

theorem two_shows_after_disabling_leave_no_panel:
  "p_isVisible (run [NgAfterViewInit, ApiShow, Bind (InDisabled True) False] mouse_button)
   \<and> body (run [NgAfterViewInit, ApiShow, Bind (InDisabled True) False, ApiShow, ApiShow] mouse_button) = []
   \<and> length (body (run [NgAfterViewInit, ApiShow, Bind (InDisabled True) False, ApiShow, ApiShow] mouse_button)) \<noteq> 1"
proof -
  let ?s = "run [NgAfterViewInit, ApiShow] mouse_button"
  let ?t = "step (Bind (InDisabled True) False) ?s"
  note d = disable_while_visible [OF mouse_button_shown(1-4)]
  have "run [NgAfterViewInit, ApiShow, Bind (InDisabled True) False, ApiShow, ApiShow] mouse_button
      = show (show ?t)"
    by (simp add: step_simps)
  moreover have "run [NgAfterViewInit, ApiShow, Bind (InDisabled True) False] mouse_button = ?t"
    by simp
  ultimately show ?thesis
    using d(1,2,4) by simp
qed

text \<open>
  What the guards of show and hide do give. In every reachable state at most one panel
  exists. In any state a show while visible changes nothing and a hide while hidden changes
  nothing. Two consecutive shows equal one show and leave at most one panel; they leave
  exactly one panel when the first is issued while hidden, and when it is issued while
  visible with the panel mounted.
\<close>

theorem at_most_one_panel:
  "(let s = run es (new_directive opts server mouse el c)
    in length (body s) \<le> 1
     \<and> length (body (show (show s))) \<le> 1
     \<and> (\<not> p_isVisible s \<longrightarrow> length (body (show (show s))) = 1)
     \<and> (p_isVisible s \<and> body s \<noteq> [] \<longrightarrow> length (body (show (show s))) = 1))
   \<and> (p_isVisible t \<longrightarrow> show t = t)
   \<and> (\<not> p_isVisible t \<longrightarrow> hide t = t)
   \<and> show (show t) = show t"
proof -
  let ?s = "run es (new_directive opts server mouse el c)"
  have c: "consistent ?s" by (rule consistent_reachable)
  have b: "at_most_one (tooltipElRef u) id (body u)" if "consistent u" for u
    using that by (simp add: consistent_def)
  have "length (body ?s) \<le> 1"
    using b [OF c] by (rule at_most_one_length)
  moreover have "length (body (show ?s)) \<le> 1"
    using b [OF consistent_show [OF c]] by (rule at_most_one_length)
  moreover have "length (body (show ?s)) = 1" if "\<not> p_isVisible ?s"
    using show_body_hidden [OF c that] by simp
  moreover have "length (body (show ?s)) = 1" if "p_isVisible ?s" and "body ?s \<noteq> []"
  proof -
    have "length (body ?s) = 1"
      using at_most_one_length [OF b [OF c]] that(2) by (cases "body ?s") simp_all
    with that(1) show ?thesis by (simp add: show_visible)
  qed
  ultimately show ?thesis
    by (simp add: show_idem show_visible hide_hidden Let_def)
qed

theorem at_most_one_panel_witness:
  "\<not> p_isVisible mouse_button
   \<and> hide mouse_button = mouse_button
   \<and> length (body (show (show mouse_button))) = 1
   \<and> p_isVisible (show mouse_button)
   \<and> show (show mouse_button) = show mouse_button
   \<and> length (body (run [NgAfterViewInit, ApiShow] mouse_button)) \<le> 1
   \<and> p_isVisible (run [NgAfterViewInit, ApiShow] mouse_button)
   \<and> body (run [NgAfterViewInit, ApiShow] mouse_button) \<noteq> []
   \<and> length (body (show (show (run [NgAfterViewInit, ApiShow] mouse_button)))) = 1"
proof -
  have h: "\<not> p_isVisible mouse_button"
    by (simp add: mouse_button_def new_directive_def)
  have v: "p_isVisible (show mouse_button)" by simp
  have m: "p_isVisible (run [NgAfterViewInit, ApiShow] mouse_button)"
    "body (run [NgAfterViewInit, ApiShow] mouse_button) \<noteq> []"
    using mouse_button_shown(2,5) by simp_all
  note a = at_most_one_panel [of "[]" DEFAULT_OPTIONS False True "new_element ''BUTTON''"
      "StringContent ''hi''" mouse_button, folded mouse_button_def]
  note b = at_most_one_panel [of "[NgAfterViewInit, ApiShow]" DEFAULT_OPTIONS False True
      "new_element ''BUTTON''" "StringContent ''hi''" "show mouse_button", folded mouse_button_def]
  have r0: "run [] mouse_button = mouse_button" by simp
  show ?thesis
    using a [unfolded Let_def r0] b [unfolded Let_def] h v m by blast
qed

lemma setupListeners_nodes [simp]: "nodes (setupListeners s) = nodes s"
  by (subst setupListeners_eq) simp

lemma removeListeners_more [simp]:
  "nodes (removeListeners s) = nodes s"
  "fresh (removeListeners s) = fresh s"
  by (simp_all add: removeListeners_def)

lemma enable_again:
  assumes "\<not> manual s" and "\<not> isServer s"
  shows "step (Bind (InDisabled False) False) s = setupListeners (s\<lparr> disabled := False \<rparr>)"
  using assms by (simp add: step_simps input_name_def set_input_def ngOnChanges_disabled)

text \<open>
  C2, the code at the failing input: a visible instance is disabled. The panel is removed
  and the listeners are detached, but the visibility flag stays set; after enabling again
  the flag is still set, and an explicit show is skipped.
\<close>

theorem disabling_keeps_visibility_flag:
  "(let s = run [NgAfterViewInit, ApiShow, Bind (InDisabled True) False] mouse_button
    in isVisible s \<and> body s = [] \<and> attached s = []
     \<and> isVisible (run [Bind (InDisabled False) False] s)
     \<and> body (run [Bind (InDisabled False) False, ApiShow] s) = [])"
proof -
  let ?s = "run [NgAfterViewInit, ApiShow] mouse_button"
  let ?t = "step (Bind (InDisabled True) False) ?s"
  note d = disable_while_visible [OF mouse_button_shown(1-4)]
  have m: "\<not> manual ?t" "\<not> isServer ?t"
    using d(5,6) mouse_button_shown(3,4) by simp_all
  have t: "run [NgAfterViewInit, ApiShow, Bind (InDisabled True) False] mouse_button = ?t"
    by simp
  have e: "step (Bind (InDisabled False) False) ?t = setupListeners (?t\<lparr> disabled := False \<rparr>)"
    using m by (rule enable_again)
  have v: "p_isVisible (step (Bind (InDisabled False) False) ?t)"
    unfolding e using d(1) by simp
  have b: "body (step (Bind (InDisabled False) False) ?t) = []"
    unfolding e using d(2) by simp
  show ?thesis
    unfolding t Let_def isVisible_def
    using d(1-3) v b by (simp add: step_simps(3) show_visible)
qed

lemma setupListeners_click:
  assumes "trigger s = Click"
  shows "eventListeners (setupListeners s) = eventListeners s @ [(''click'', Callback (fresh s) CallToggle, True)]"
    and "fresh (setupListeners s) = Suc (fresh s)"
  using assms by (simp_all add: setupListeners_def setupClickEvents_eq Let_def)

lemma dispatch_two:
  "attached s = [(t, Callback i b, p), (t', Callback i' b', p')] \<Longrightarrow> event_type ev = t \<Longrightarrow> t' = t \<Longrightarrow>
   dispatchEvent ev s = run_handler b' ev (run_handler b ev s)"
  by (simp add: dispatchEvent_def call_listener_def)

lemma dispatch_one:
  "attached s = [(t, Callback i b, p)] \<Longrightarrow> event_type ev = t \<Longrightarrow>
   dispatchEvent ev s = run_handler b ev s"
  by (simp add: dispatchEvent_def call_listener_def)

text \<open>
  C3, the code at the failing input: a click-triggered instance is disabled and enabled
  again. The list of recorded listeners is never emptied, so the second setup records a
  second click handler and attaches both; one click then toggles twice and shows nothing,
  where before the disabling it showed the panel.
\<close>

theorem click_handler_attached_twice:
  "(let s = run [Bind (InTrigger Click) True, NgAfterViewInit,
                 Bind (InDisabled True) False, Bind (InDisabled False) False] mouse_button
    in attached s = [(''click'', Callback 0 CallToggle, True), (''click'', Callback 1 CallToggle, True)]
     \<and> length (filter (\<lambda>l. fst l = ''click'') (attached s)) = 2
     \<and> \<not> p_isVisible (step (Dispatch (dom_event_of ''click'')) s)
     \<and> body (step (Dispatch (dom_event_of ''click'')) s) = [])
   \<and> (let s = run [Bind (InTrigger Click) True, NgAfterViewInit] mouse_button
      in attached s = [(''click'', Callback 0 CallToggle, True)]
       \<and> p_isVisible (step (Dispatch (dom_event_of ''click'')) s)
       \<and> body (step (Dispatch (dom_event_of ''click'')) s) = [0])"
proof -
  let ?a = "mouse_button\<lparr> trigger := Click \<rparr>"
  let ?b = "setupListeners ?a"
  let ?c = "removeListeners (?b\<lparr> disabled := True \<rparr>)"
  let ?d = "setupListeners (?c\<lparr> disabled := False \<rparr>)"
  let ?click0 = "(''click'', Callback 0 CallToggle, True)"
  let ?click1 = "(''click'', Callback 1 CallToggle, True)"
  let ?ev = "dom_event_of ''click''"
  have ca: "consistent ?a"
    using consistent_set_input [of "InTrigger Click" mouse_button]
    by (simp add: set_input_def mouse_button_def consistent_new_directive)
  have cb: "consistent ?b" using ca by (rule consistent_setupListeners)
  have cc: "consistent ?c"
    using cb consistent_set_input [of "InDisabled True" ?b]
    by (simp add: set_input_def consistent_removeListeners)
  have cd: "consistent ?d"
    using cc consistent_set_input [of "InDisabled False" ?c]
    by (simp add: set_input_def consistent_setupListeners)
  have a: "step (Bind (InTrigger Click) True) mouse_button = ?a"
    by (simp add: step_simps set_input_def ngOnChanges_first)
  have a_flags: "\<not> manual ?a" "\<not> isServer ?a" "\<not> disabled ?a" "\<not> p_isVisible ?a" "trigger ?a = Click"
    "eventListeners ?a = []" "attached ?a = []" "fresh ?a = 0" "next_node (nodes ?a) = 0"
    by (simp_all add: mouse_button_def new_directive_def empty_dom_def)
  have b: "ngAfterViewInit ?a = ?b"
    using a_flags(1-3) by (simp add: ngAfterViewInit_def)
  have b_listeners: "eventListeners ?b = [?click0]" "fresh ?b = 1"
    using setupListeners_click [of ?a] a_flags by simp_all
  have b_attached: "attached ?b = [?click0]"
    by (subst setupListeners_attached) (simp add: b_listeners a_flags addEventListener_def)
  have c: "step (Bind (InDisabled True) False) ?b = ?c"
    using a_flags(1,2,4) by (simp add: step_simps input_name_def set_input_def ngOnChanges_disabled)
  have c_attached: "attached ?c = []"
    by (simp add: removeListeners_def b_listeners b_attached removeEventListener_def)
  have d: "step (Bind (InDisabled False) False) ?c = ?d"
    using a_flags(1,2) by (simp add: enable_again)
  have d_listeners: "eventListeners ?d = [?click0, ?click1]"
    using setupListeners_click(1) [of "?c\<lparr> disabled := False \<rparr>"] a_flags(5) b_listeners by simp
  have d_attached: "attached ?d = [?click0, ?click1]"
    by (subst setupListeners_attached)
       (simp add: d_listeners c_attached addEventListener_def same_registration_def)
  have d_hidden: "\<not> p_isVisible ?d" using a_flags(4) by simp
  have twice: "dispatchEvent ?ev ?d = toggle (toggle ?d)"
    using dispatch_two [OF d_attached, of ?ev] by (simp add: dom_event_of_def run_handler_def)
  have after: "toggle (toggle ?d) = hide (show ?d)"
    using d_hidden by (simp add: toggle_def)
  have once: "dispatchEvent ?ev ?b = show ?b"
    using dispatch_one [OF b_attached, of ?ev] a_flags(4)
    by (simp add: dom_event_of_def run_handler_def toggle_def)
  have b_body: "body (show ?b) = [0]"
    using show_body_hidden [OF cb] a_flags(4,9) by simp
  have run_d: "run [Bind (InTrigger Click) True, NgAfterViewInit,
                 Bind (InDisabled True) False, Bind (InDisabled False) False] mouse_button = ?d"
    by (simp add: a step_simps(1) b c d)
  have run_b: "run [Bind (InTrigger Click) True, NgAfterViewInit] mouse_button = ?b"
    by (simp add: a step_simps(1) b)
  show ?thesis
    unfolding run_d run_b Let_def step_simps twice after once
    using hide_clears(1) [OF consistent_show [OF cd]] b_body
    by (simp add: d_attached b_attached)
qed

section \<open>The long-press timer\<close>

lemma setupListeners_touch:
  assumes "trigger s = Hover" and "\<not> supportsMouseEvents s"
  shows "eventListeners (setupListeners s) = eventListeners s @
           [(''focus'', Callback (fresh s) CallShow, True),
            (''blur'', Callback (Suc (fresh s)) CallHide, True),
            (''touchstart'', Callback (Suc (Suc (fresh s))) TouchstartHandler, True),
            (''touchend'', Callback (Suc (Suc (Suc (fresh s)))) TouchendHandler, True),
            (''touchcancel'', Callback (Suc (Suc (Suc (fresh s)))) TouchendHandler, True)]"
    and "fresh (setupListeners s) = Suc (Suc (Suc (Suc (fresh s))))"
  using assms
  by (simp_all add: setupListeners_def setupFocusAndBlurEvents_eq setupTouchEvents_eq Let_def)

lemma touch_button_listening:
  "ngAfterViewInit touch_button = setupListeners touch_button"
  "attached (setupListeners touch_button) =
     [(''focus'', Callback 0 CallShow, True),
      (''blur'', Callback 1 CallHide, True),
      (''touchstart'', Callback 2 TouchstartHandler, True),
      (''touchend'', Callback 3 TouchendHandler, True),
      (''touchcancel'', Callback 3 TouchendHandler, True)]"
  "fresh (setupListeners touch_button) = 4"
proof -
  have flags: "trigger touch_button = Hover" "\<not> supportsMouseEvents touch_button"
    "eventListeners touch_button = []" "attached touch_button = []" "fresh touch_button = 0"
    "\<not> manual touch_button" "\<not> isServer touch_button" "\<not> disabled touch_button"
    by (simp_all add: touch_button_def new_directive_def)
  show "ngAfterViewInit touch_button = setupListeners touch_button"
    using flags by (simp add: ngAfterViewInit_def)
  have l: "eventListeners (setupListeners touch_button) =
     [(''focus'', Callback 0 CallShow, True),
      (''blur'', Callback 1 CallHide, True),
      (''touchstart'', Callback 2 TouchstartHandler, True),
      (''touchend'', Callback 3 TouchendHandler, True),
      (''touchcancel'', Callback 3 TouchendHandler, True)]"
    using setupListeners_touch(1) [OF flags(1,2)] flags(3,5) by (simp add: numeral_eq_Suc)
  show "attached (setupListeners touch_button) =
     [(''focus'', Callback 0 CallShow, True),
      (''blur'', Callback 1 CallHide, True),
      (''touchstart'', Callback 2 TouchstartHandler, True),
      (''touchend'', Callback 3 TouchendHandler, True),
      (''touchcancel'', Callback 3 TouchendHandler, True)]"
    by (subst setupListeners_attached)
       (simp add: l flags(4) addEventListener_def same_registration_def)
  show "fresh (setupListeners touch_button) = 4"
    using setupListeners_touch(2) [OF flags(1,2)] flags(5) by simp
qed

lemma dispatch_touchstart:
  assumes "attached s =
     [(''focus'', Callback 0 CallShow, True),
      (''blur'', Callback 1 CallHide, True),
      (''touchstart'', Callback 2 TouchstartHandler, True),
      (''touchend'', Callback 3 TouchendHandler, True),
      (''touchcancel'', Callback 3 TouchendHandler, True)]"
  shows "dispatchEvent (dom_event_of ''touchstart'') s =
           run_handler TouchstartHandler (dom_event_of ''touchstart'') s"
  by (simp add: dispatchEvent_def assms call_listener_def dom_event_of_def)

lemma touchstart_simps:
  "timers (run_handler TouchstartHandler ev s) =
     without (touchstartTimeout s) fst (timers s) @
       [(fresh s, clock s + (case options s ''longPressDelay'' of None \<Rightarrow> 0 | Some n \<Rightarrow> nat n))]"
  "touchstartTimeout (run_handler TouchstartHandler ev s) = Some (fresh s)"
  "p_isVisible (run_handler TouchstartHandler ev s) = p_isVisible s"
  "body (run_handler TouchstartHandler ev s) = body s"
  "nodes (run_handler TouchstartHandler ev s) = nodes s"
  "clock (run_handler TouchstartHandler ev s) = clock s"
  by (simp_all add: touchstart_eq)

text \<open>The touch button after the view was initialised and a finger was put down.\<close>

lemma touch_button_pressed:
  defines "s \<equiv> run [NgAfterViewInit, Dispatch (dom_event_of ''touchstart'')] touch_button"
  shows "timers s = [(4, 500)]" and "\<not> p_isVisible s" and "body s = []"
    and "next_node (nodes s) = 0" and "clock s = 0" and "consistent s"
proof -
  let ?a = "setupListeners touch_button"
  have s: "s = run_handler TouchstartHandler (dom_event_of ''touchstart'') ?a"
    by (simp add: s_def step_simps touch_button_listening(1)
        dispatch_touchstart [OF touch_button_listening(2)])
  have base: "timers touch_button = []" "clock touch_button = 0" "\<not> p_isVisible touch_button"
    "body touch_button = []" "next_node (nodes touch_button) = 0"
    "options touch_button ''longPressDelay'' = Some 500"
    by (simp_all add: touch_button_def new_directive_def empty_dom_def DEFAULT_OPTIONS_def)
  have opts: "options ?a = options touch_button"
    by (subst setupListeners_eq) simp
  show "timers s = [(4, 500)]"
    unfolding s touchstart_simps by (simp add: touch_button_listening(3) base opts)
  show "\<not> p_isVisible s" "body s = []" "next_node (nodes s) = 0" "clock s = 0"
    unfolding s touchstart_simps by (simp_all add: base)
  show "consistent s"
    unfolding s_def touch_button_def by (rule consistent_reachable)
qed

lemma advance_fires:
  assumes "timers s = [(i, due)]" and "due \<le> clock s + d"
  shows "advance d s = show (s\<lparr> clock := clock s + d, timers := [] \<rparr>)"
  using assms by (simp add: advance_def fire_def without_def Let_def)

text \<open>
  C6 as stated fails for hide: while a long press is pending the instance is hidden, so
  hide returns at its guard and the timeout stays pending; when the delay has passed the
  show fires and the panel appears.
\<close>

theorem hide_while_hidden_leaves_timer_pending:
  "(let s = run [NgAfterViewInit, Dispatch (dom_event_of ''touchstart''), ApiHide] touch_button
    in timers s = [(4, 500)]
     \<and> p_isVisible (run [Advance 500] s)
     \<and> body (run [Advance 500] s) = [0])"
proof -
  let ?p = "run [NgAfterViewInit, Dispatch (dom_event_of ''touchstart'')] touch_button"
  note p = touch_button_pressed
  have h: "run [NgAfterViewInit, Dispatch (dom_event_of ''touchstart''), ApiHide] touch_button = ?p"
    using p(2) by (simp add: step_simps hide_hidden)
  have a: "advance 500 ?p = show (?p\<lparr> clock := clock ?p + 500, timers := [] \<rparr>)"
    using p(1) by (rule advance_fires) simp
  have c: "consistent (?p\<lparr> clock := clock ?p + 500, timers := [] \<rparr>)"
    using p(6) by (simp add: consistent_def registered_def)
  have "body (show (?p\<lparr> clock := clock ?p + 500, timers := [] \<rparr>)) = [0]"
    using show_body_hidden [OF c] p(2,4) by simp
  moreover have r: "run [Advance 500] ?p = advance 500 ?p"
    by (simp add: step_simps)
  ultimately show ?thesis
    unfolding h Let_def r a using p(1) by simp
qed

lemma ngOnDestroy_clears:
  assumes "consistent s"
  shows "timers (ngOnDestroy s) = []" and "attached (ngOnDestroy s) = []"
    and "body (ngOnDestroy s) = []" and "tracking (ngOnDestroy s) = []"
proof -
  note d = consistent_destroy [OF assms]
  have "registered (destroy s)" using d(1) by (simp add: consistent_def)
  then show "attached (ngOnDestroy s) = []"
    unfolding ngOnDestroy_def by (rule removeListeners_attached)
  show "timers (ngOnDestroy s) = []" "body (ngOnDestroy s) = []" "tracking (ngOnDestroy s) = []"
    using d by (simp_all add: ngOnDestroy_def)
qed

text \<open>With no pending timeout and no attached listener, passive events create nothing.\<close>

lemma quiet_step:
  assumes "is_passive e" and "timers s = []" and "attached s = []" and "body s = []"
  shows "timers (step e s) = [] \<and> attached (step e s) = [] \<and> body (step e s) = []"
  using assms
  by (cases e) (simp_all add: is_passive_def step_simps dispatchEvent_def advance_def reposition_def)

lemma quiet_run:
  assumes "list_all is_passive fs" and "timers s = []" and "attached s = []" and "body s = []"
  shows "timers (run fs s) = [] \<and> attached (run fs s) = [] \<and> body (run fs s) = []"
  using assms
proof (induction fs arbitrary: s)
  case Nil
  then show ?case by simp
next
  case (Cons e fs)
  have "timers (step e s) = [] \<and> attached (step e s) = [] \<and> body (step e s) = []"
    using Cons.prems by (intro quiet_step) simp_all
  with Cons.prems(1) Cons.IH [of "step e s"] show ?case by simp
qed

lemma touchend_clears_timer:
  assumes "consistent s"
  shows "timers (run_handler TouchendHandler ev s) = []"
proof -
  have "timers (clearTimeout (touchstartTimeout s) s) = []"
    using assms by (rule consistent_clearTimeout(2))
  then show ?thesis by (simp add: run_handler_def)
qed

text \<open>
  C6, amended. In every reachable state at most one timeout is pending. The touchend and
  touchcancel listener cancels it, destruction cancels it, and a hide cancels it when the
  instance is visible; a hide of a hidden instance leaves it pending. After destruction no timeout is pending, no listener is attached and
  no panel exists, and this stays so however much time passes and whatever DOM events and
  position updates arrive: no show fires after destruction.
\<close>

theorem long_press_timer_cancelled:
  "(let s = run es (new_directive opts server mouse el c)
    in length (timers s) \<le> 1
     \<and> timers (run_handler TouchendHandler ev s) = []
     \<and> (p_isVisible s \<longrightarrow> timers (hide s) = [])
     \<and> (\<not> p_isVisible s \<longrightarrow> timers (hide s) = timers s)
     \<and> timers (ngOnDestroy s) = []
     \<and> attached (ngOnDestroy s) = []
     \<and> body (ngOnDestroy s) = []
     \<and> (list_all is_passive fs \<longrightarrow>
          body (run fs (ngOnDestroy s)) = [] \<and> timers (run fs (ngOnDestroy s)) = []))"
proof -
  let ?s = "run es (new_directive opts server mouse el c)"
  have c: "consistent ?s" by (rule consistent_reachable)
  note d = ngOnDestroy_clears [OF c]
  have "at_most_one (touchstartTimeout ?s) fst (timers ?s)"
    using c by (simp add: consistent_def)
  then have one: "length (timers ?s) \<le> 1" by (rule at_most_one_length)
  have hidden: "timers (hide ?s) = []" if "p_isVisible ?s"
    using that c by (simp add: consistent_def at_most_one_without)
  have after: "body (run fs (ngOnDestroy ?s)) = [] \<and> timers (run fs (ngOnDestroy ?s)) = []"
    if "list_all is_passive fs"
    using quiet_run [OF that d(1,2,3)] by simp
  have kept: "timers (hide ?s) = timers ?s" if "\<not> p_isVisible ?s"
    using that by (simp add: hide_hidden)
  show ?thesis
    unfolding Let_def
    using one touchend_clears_timer [OF c] hidden kept d(1,2,3) after by blast
qed

lemma touch_button_pressed_while_visible:
  defines "s \<equiv> run [NgAfterViewInit, ApiShow, Dispatch (dom_event_of ''touchstart'')] touch_button"
  shows "timers s = [(5, 500)]" and "p_isVisible s"
proof -
  let ?a = "show (setupListeners touch_button)"
  have at: "attached ?a = attached (setupListeners touch_button)" by simp
  have s: "s = run_handler TouchstartHandler (dom_event_of ''touchstart'') ?a"
    by (simp add: s_def step_simps touch_button_listening(1)
        dispatch_touchstart [OF at [unfolded touch_button_listening(2)]])
  have base: "timers touch_button = []" "clock touch_button = 0" "\<not> p_isVisible touch_button"
    "touchstartTimeout touch_button = None"
    "options touch_button ''longPressDelay'' = Some 500"
    by (simp_all add: touch_button_def new_directive_def DEFAULT_OPTIONS_def)
  have vis: "\<not> p_isVisible (setupListeners touch_button)" using base(3) by simp
  have f: "fresh ?a = 5"
    using vis touch_button_listening(3)
    by (simp add: show_def) (subst render_eq, simp add: render_def createElement_def createEl_def
        Let_def case_prod_beta touch_button_def new_directive_def)
  have o: "options (setupListeners touch_button) = options touch_button"
    by (subst setupListeners_eq) simp
  show "timers s = [(5, 500)]"
    unfolding s touchstart_simps using vis by (simp add: f base o)
  show "p_isVisible s"
    unfolding s touchstart_simps by simp
qed

theorem long_press_timer_cancelled_witness:
  "(let s = run [NgAfterViewInit, ApiShow, Dispatch (dom_event_of ''touchstart'')] touch_button
    in timers s = [(5, 500)]
     \<and> p_isVisible s
     \<and> timers (hide s) = []
     \<and> timers (ngOnDestroy s) = []
     \<and> list_all is_passive [Advance 500, Dispatch (dom_event_of ''touchstart''), Advance 500]
     \<and> body (run [Advance 500, Dispatch (dom_event_of ''touchstart''), Advance 500] (ngOnDestroy s)) = [])
   \<and> (let s = run [NgAfterViewInit, Dispatch (dom_event_of ''touchstart'')] touch_button
      in \<not> p_isVisible s \<and> timers (hide s) = [(4, 500)])"
proof -
  note u = long_press_timer_cancelled
    [of "[NgAfterViewInit, Dispatch (dom_event_of ''touchstart'')]"
        DEFAULT_OPTIONS False False "new_element ''BUTTON''" "StringContent ''hi''"
        "dom_event_of ''touchend''" "[]", folded touch_button_def]
  have p: "list_all is_passive [Advance 500, Dispatch (dom_event_of ''touchstart''), Advance 500]"
    by (simp add: is_passive_def)
  note t = long_press_timer_cancelled
    [of "[NgAfterViewInit, ApiShow, Dispatch (dom_event_of ''touchstart'')]"
        DEFAULT_OPTIONS False False "new_element ''BUTTON''" "StringContent ''hi''"
        "dom_event_of ''touchend''" "[Advance 500, Dispatch (dom_event_of ''touchstart''), Advance 500]",
     folded touch_button_def]
  show ?thesis
    using t u p touch_button_pressed_while_visible touch_button_pressed(1,2)
    unfolding Let_def by metis
qed

section \<open>Server rendering\<close>

lemma set_input_simps [simp]:
  "isServer (set_input i s) = isServer s"
  "p_isVisible (set_input i s) = p_isVisible s"
  "eventListeners (set_input i s) = eventListeners s"
  "attached (set_input i s) = attached s"
  "timers (set_input i s) = timers s"
  "body (set_input i s) = body s"
  by (cases i; simp add: set_input_def)+

lemma ngOnChanges_server: "isServer s \<Longrightarrow> ngOnChanges ch s = s"
  by (simp add: ngOnChanges_def split: option.splits)

lemma toggle_simps [simp]:
  "isServer (toggle s) = isServer s"
  "eventListeners (toggle s) = eventListeners s"
  "attached (toggle s) = attached s"
  by (simp_all add: toggle_def)

lemma inert_step:
  assumes "isServer s" and "eventListeners s = []" and "attached s = []" and "timers s = []"
  shows "isServer (step e s)" and "eventListeners (step e s) = []"
    and "attached (step e s) = []" and "timers (step e s) = []"
    and "\<not> is_api e \<Longrightarrow> p_isVisible (step e s) = p_isVisible s"
  using assms
  by (cases e;
      simp add: step_simps ngOnChanges_server ngAfterViewInit_def ngOnDestroy_def
        removeListeners_def destroy_eq toggle_def dispatchEvent_def advance_def reposition_def
        is_api_def)+

lemma inert_run:
  assumes "isServer s" and "eventListeners s = []" and "attached s = []" and "timers s = []"
  shows "isServer (run es s) \<and> eventListeners (run es s) = [] \<and> attached (run es s) = []
         \<and> timers (run es s) = []"
  using assms
proof (induction es arbitrary: s)
  case Nil
  then show ?case by simp
next
  case (Cons e es)
  from inert_step(1-4) [OF Cons.prems, of e] Cons.IH [of "step e s"]
  show ?case by simp
qed

text \<open>
  C10. An instance created on the server never has a listener attached or recorded,
  whatever happens to it: initialisation and changes of the disabled input attach nothing.
  Its visibility changes only through show, hide and toggle: every other event leaves the
  flag as it was.
\<close>

theorem server_instance_is_inert:
  "(let s = run es (new_directive opts True mouse el c)
    in attached s = []
     \<and> eventListeners s = []
     \<and> attached (ngAfterViewInit s) = []
     \<and> attached (step (Bind (InDisabled b) fc) s) = []
     \<and> (\<not> is_api e \<longrightarrow> p_isVisible (step e s) = p_isVisible s))"
proof -
  let ?i = "new_directive opts True mouse el c"
  have i: "isServer ?i" "eventListeners ?i = []" "attached ?i = []" "timers ?i = []"
    by (simp_all add: new_directive_def)
  have r: "isServer (run es ?i)" "eventListeners (run es ?i) = []" "attached (run es ?i) = []"
    "timers (run es ?i) = []"
    using inert_run [OF i, of es] by simp_all
  note s = inert_step [OF r]
  have "attached (ngAfterViewInit (run es ?i)) = []"
    using s(3) [of NgAfterViewInit] by (simp add: step_simps)
  then show ?thesis
    unfolding Let_def using r(2,3) s(3) [of "Bind (InDisabled b) fc"] s(5) [of e] by blast
qed

theorem server_instance_is_inert_witness:
  "(let s = run [NgAfterViewInit, Bind (InDisabled True) False, Bind (InDisabled False) False, ApiShow]
              server_button
    in attached s = []
     \<and> p_isVisible s
     \<and> \<not> is_api (Dispatch (dom_event_of ''mouseleave''))
     \<and> p_isVisible (step (Dispatch (dom_event_of ''mouseleave'')) s))"
proof -
  note t = server_instance_is_inert
    [of "[NgAfterViewInit, Bind (InDisabled True) False, Bind (InDisabled False) False, ApiShow]"
        DEFAULT_OPTIONS True "new_element ''BUTTON''" "StringContent ''hi''" False False
        "Dispatch (dom_event_of ''mouseleave'')", folded server_button_def]
  have v: "p_isVisible (run [NgAfterViewInit, Bind (InDisabled True) False,
              Bind (InDisabled False) False, ApiShow] server_button)"
    by (simp add: step_simps)
  have n: "\<not> is_api (Dispatch (dom_event_of ''mouseleave''))"
    by (simp add: is_api_def)
  show ?thesis
    using t v n unfolding Let_def by metis
qed

section \<open>Content that is a component class\<close>

lemma render_nodes: "nodes (render s) = nodes (snd (createElement (showArrow s) s))"
  by (simp add: render_def Let_def case_prod_beta)

lemma createElement_keeps [simp]:
  "componentRef (snd (createElement b s)) = componentRef s"
  "appViews (snd (createElement b s)) = appViews s"
  by (subst createElement_snd, simp)+

lemma createElement_component:
  assumes "content s = ComponentType selector source"
  shows "views (snd (createElement b s)) = views s"
    and "embdedViewRef (snd (createElement b s)) = embdedViewRef s"
    and "textContent (elems (nodes (snd (createElement b s))) (Suc (next_node (nodes s)))) = source"
    and "childNodes (elems (nodes (snd (createElement b s))) (Suc (next_node (nodes s)))) = []"
  using assms
  by (simp_all add: createElement_def createEl_def setAttribute_def setTextContent_def
      appendChild_def String_content_def Let_def case_prod_beta)

lemma createElement_earlier_component:
  assumes "content s = ComponentType selector source"
  shows "componentRef (snd (createElement_earlier b s)) = Some (fresh s)"
    and "appViews (snd (createElement_earlier b s)) = appViews s @ [fresh s]"
    and "childNodes (elems (nodes (snd (createElement_earlier b s))) (Suc (next_node (nodes s))))
           = [Suc (Suc (next_node (nodes s)))]"
    and "nodeName (elems (nodes (snd (createElement_earlier b s))) (Suc (Suc (next_node (nodes s)))))
           = toUpperCase selector"
    and "textContent (elems (nodes (snd (createElement_earlier b s))) (Suc (next_node (nodes s)))) = []"
  using assms
  by (simp_all add: createElement_earlier_def createEl_def setAttribute_def createComponent_def
      attachView_def appendChild_def new_element_def addClass_def Let_def case_prod_beta)

lemma component_button_flags:
  "content component_button = ComponentType ''app-test'' ''class TestComponent { }''"
  "\<not> p_isVisible component_button"
  "componentRef component_button = None"
  "appViews component_button = []"
  "next_node (nodes component_button) = 0"
  "fresh component_button = 0"
  by (simp_all add: component_button_def new_directive_def empty_dom_def)

lemma component_button_consistent: "consistent component_button"
  unfolding component_button_def by (rule consistent_new_directive)

lemma destroy_showArrow [simp]: "showArrow (destroy s) = showArrow s"
  by (simp add: destroy_eq)

lemma show_hidden_nodes:
  "\<not> p_isVisible s \<Longrightarrow> nodes (show s) = nodes (snd (createElement (showArrow s) (destroy (s\<lparr> p_isVisible := True \<rparr>))))"
  by (simp add: show_def render_nodes)

text \<open>
  C8 as stated fails on the directive as it is now: its content type is a template, a
  string or a number, and every content that is not a template is turned into text. Showing
  the tooltip of a button bound to a component class creates no component and attaches no
  view; the content element holds the source text of the class and has no child.
\<close>

theorem component_class_is_stringified:
  "(let s = run [ApiShow] component_button
    in body s = [0]
     \<and> componentRef s = None
     \<and> appViews s = []
     \<and> textContent (elems (nodes s) 1) = ''class TestComponent { }''
     \<and> childNodes (elems (nodes s) 1) = [])"
proof -
  let ?d = "destroy (component_button\<lparr> p_isVisible := True \<rparr>)"
  note f = component_button_flags
  have c: "content ?d = ComponentType ''app-test'' ''class TestComponent { }''"
    using f(1) by simp
  have n: "next_node (nodes ?d) = 0" using f(5) by simp
  have nodes: "nodes (show component_button) = nodes (snd (createElement (showArrow ?d) ?d))"
    using show_hidden_nodes [OF f(2)] by simp
  have "appViews (show component_button) = []"
    using f(2,3,4) by simp
  moreover have "body (show component_button) = [0]"
    using show_body_hidden [OF component_button_consistent f(2)] f(5) by simp
  ultimately show ?thesis
    unfolding Let_def
    using createElement_component(3,4) [OF c, of "showArrow ?d"] f(3)
    by (simp add: step_simps nodes f(5))
qed

text \<open>
  C8, amended. When the content is a component class, the directive's createElement takes
  the branch for everything that is not a template: the content element's text becomes the
  string of the content and it gets no child, no component reference is stored, no view is
  attached to the application and no embedded view is created; a show stores no component
  reference either. Only the earlier revision of createElement, whose content type admitted
  component classes, created the component, stored its reference, attached its view to the
  application and appended its host element to the content element.
\<close>

theorem component_content_by_revision:
  "content s = ComponentType selector source \<longrightarrow>
     (let t = snd (createElement b s);
          contentEl = Suc (next_node (nodes s))
      in componentRef t = componentRef s
       \<and> appViews t = appViews s
       \<and> views t = views s
       \<and> textContent (elems (nodes t) contentEl) = String_content (content s)
       \<and> textContent (elems (nodes t) contentEl) = source
       \<and> childNodes (elems (nodes t) contentEl) = []
       \<and> componentRef (show s) = componentRef s)
     \<and> (let t = snd (createElement_earlier b s);
            contentEl = Suc (next_node (nodes s));
            host = Suc (Suc (next_node (nodes s)))
        in componentRef t = Some (fresh s)
         \<and> appViews t = appViews s @ [fresh s]
         \<and> childNodes (elems (nodes t) contentEl) = [host]
         \<and> nodeName (elems (nodes t) host) = toUpperCase selector
         \<and> textContent (elems (nodes t) contentEl) = [])"
proof
  assume c: "content s = ComponentType selector source"
  have "String_content (content s) = source"
    using c by (simp add: String_content_def)
  then show "(let t = snd (createElement b s);
          contentEl = Suc (next_node (nodes s))
      in componentRef t = componentRef s
       \<and> appViews t = appViews s
       \<and> views t = views s
       \<and> textContent (elems (nodes t) contentEl) = String_content (content s)
       \<and> textContent (elems (nodes t) contentEl) = source
       \<and> childNodes (elems (nodes t) contentEl) = []
       \<and> componentRef (show s) = componentRef s)
     \<and> (let t = snd (createElement_earlier b s);
            contentEl = Suc (next_node (nodes s));
            host = Suc (Suc (next_node (nodes s)))
        in componentRef t = Some (fresh s)
         \<and> appViews t = appViews s @ [fresh s]
         \<and> childNodes (elems (nodes t) contentEl) = [host]
         \<and> nodeName (elems (nodes t) host) = toUpperCase selector
         \<and> textContent (elems (nodes t) contentEl) = [])"
    unfolding Let_def
    using createElement_component [OF c, of b] createElement_earlier_component [OF c, of b]
    by simp
qed

theorem component_content_by_revision_witness:
  "content component_button = ComponentType ''app-test'' ''class TestComponent { }''
   \<and> componentRef (snd (createElement True component_button)) = None
   \<and> appViews (snd (createElement True component_button)) = []
   \<and> textContent (elems (nodes (snd (createElement True component_button))) 1) = ''class TestComponent { }''
   \<and> childNodes (elems (nodes (snd (createElement True component_button))) 1) = []
   \<and> componentRef (snd (createElement_earlier True component_button)) = Some 0
   \<and> appViews (snd (createElement_earlier True component_button)) = [0]
   \<and> childNodes (elems (nodes (snd (createElement_earlier True component_button))) 1) = [2]
   \<and> nodeName (elems (nodes (snd (createElement_earlier True component_button))) 2) = ''APP-TEST''"
proof -
  note f = component_button_flags
  note t = component_content_by_revision
    [of component_button "''app-test''" "''class TestComponent { }''" True]
  show ?thesis
    using t f(1,3,4,5,6) unfolding Let_def
    by (simp add: numeral_2_eq_2 String_content_def toUpperCase_def upper_char_def)
qed

end
